theory Spec2Isabelle
  imports Main "HOL-Library.AList"
begin

section \<open>Python values\<close>

text \<open>
  The configuration of \<^verbatim>\<open>create_vm.py\<close> is whatever \<^verbatim>\<open>json.load\<close> returns (or the
  literal of \<^verbatim>\<open>_default_config\<close>): nested dictionaries, lists, strings, integers, booleans
  and \<^verbatim>\<open>None\<close>. A dictionary is an association list (insertion order is kept, as in
  Python); a string is a list of code points, each \<^typ>\<open>char\<close> standing for one code point
  in the range U+0000 .. U+00FF. Floating-point numbers are not part of the model.
\<close>

datatype pyval =
    PNone
  | PBool bool
  | PInt int
  | PStr string
  | PList "pyval list"
  | PDict "(string \<times> pyval) list"

type_synonym pydict = "(string \<times> pyval) list"

text \<open>
  The exceptions the script can meet. Every handler of the script that changes control
  flow is either a bare \<^verbatim>\<open>except:\<close> or \<^verbatim>\<open>except Exception\<close>; the handlers for
  \<^verbatim>\<open>AzureError\<close> only log and re-raise. Interrupts (\<^verbatim>\<open>KeyboardInterrupt\<close>,
  \<^verbatim>\<open>SystemExit\<close>) are outside the model.
\<close>

datatype exn =
    AzureError string
  | TypeError
  | AttributeError
  | KeyError
  | OtherException string

text \<open>\<^verbatim>\<open>bool(v)\<close>, as used by \<^verbatim>\<open>if not v\<close> and \<^verbatim>\<open>a or b\<close>.\<close>

fun truthy :: "pyval \<Rightarrow> bool" where
  "truthy PNone = False"
| "truthy (PBool b) = b"
| "truthy (PInt i) = (i \<noteq> 0)"
| "truthy (PStr s) = (s \<noteq> [])"
| "truthy (PList xs) = (xs \<noteq> [])"
| "truthy (PDict kvs) = (kvs \<noteq> [])"

text \<open>\<^verbatim>\<open>d.get(key, default)\<close> on a dictionary.\<close>

definition dict_get :: "pydict \<Rightarrow> string \<Rightarrow> pyval \<Rightarrow> pyval" where
  "dict_get d k dflt = (case map_of d k of None \<Rightarrow> dflt | Some v \<Rightarrow> v)"

text \<open>\<^verbatim>\<open>v.get(key, default)\<close> on any value: only a dictionary has the method.\<close>

fun py_get :: "pyval \<Rightarrow> string \<Rightarrow> pyval \<Rightarrow> exn + pyval" where
  "py_get (PDict d) k dflt = Inr (dict_get d k dflt)"
| "py_get v k dflt = Inl AttributeError"

text \<open>\<^verbatim>\<open>len(v)\<close>.\<close>

fun py_len :: "pyval \<Rightarrow> exn + nat" where
  "py_len (PStr s) = Inr (length s)"
| "py_len (PList xs) = Inr (length xs)"
| "py_len (PDict kvs) = Inr (length kvs)"
| "py_len v = Inl TypeError"

text \<open>Iterating a value, as \<^verbatim>\<open>enumerate(v)\<close> does: a list gives its elements, a string
  its one-character strings, a dictionary its keys.\<close>

fun py_iter :: "pyval \<Rightarrow> exn + pyval list" where
  "py_iter (PList xs) = Inr xs"
| "py_iter (PStr s) = Inr (map (\<lambda>c. PStr [c]) s)"
| "py_iter (PDict kvs) = Inr (map (\<lambda>kv. PStr (fst kv)) kvs)"
| "py_iter v = Inl TypeError"

subsection \<open>Strings\<close>

text \<open>\<^verbatim>\<open>str.isalnum\<close> on one code point below U+0100, from the Unicode character
  database: the ASCII digits and letters, the Latin-1 letters, and the Latin-1 superscript
  digits and vulgar fractions.\<close>

definition isalnum_char :: "char \<Rightarrow> bool" where
  "isalnum_char c = (let n = (of_char c :: nat) in
     (48 \<le> n \<and> n \<le> 57) \<or> (65 \<le> n \<and> n \<le> 90) \<or> (97 \<le> n \<and> n \<le> 122) \<or>
     n = 170 \<or> n = 178 \<or> n = 179 \<or> n = 181 \<or> n = 185 \<or> n = 186 \<or>
     (188 \<le> n \<and> n \<le> 190) \<or> (192 \<le> n \<and> n \<le> 214) \<or> (216 \<le> n \<and> n \<le> 246) \<or>
     248 \<le> n)"

text \<open>\<^verbatim>\<open>s.isalnum()\<close>: every character is alphanumeric and there is at least one.\<close>

definition isalnum :: "string \<Rightarrow> bool" where
  "isalnum s = (s \<noteq> [] \<and> list_all isalnum_char s)"

text \<open>\<^verbatim>\<open>s.replace(c, '')\<close> for a one-character \<^verbatim>\<open>c\<close>.\<close>

definition replace_del :: "char \<Rightarrow> string \<Rightarrow> string" where
  "replace_del c s = filter (\<lambda>x. x \<noteq> c) s"

text \<open>\<^verbatim>\<open>str(n)\<close> of an integer.\<close>

definition digit_char :: "nat \<Rightarrow> char" where
  "digit_char d = ''0123456789'' ! d"

fun str_nat :: "nat \<Rightarrow> string" where
  "str_nat n = (if n < 10 then [digit_char n] else str_nat (n div 10) @ [digit_char (n mod 10)])"

declare str_nat.simps [simp del]

definition str_int :: "int \<Rightarrow> string" where
  "str_int i = (if i < 0 then CHR ''-'' # str_nat (nat (- i)) else str_nat (nat i))"

text \<open>\<^verbatim>\<open>repr\<close> of a string: single quotes unless the string holds a single quote and no
  double quote; the quote and the backslash escaped; tab, newline and carriage return by
  letter; every other non-printable code point as \<^verbatim>\<open>\xhh\<close>.\<close>

definition hex_digit :: "nat \<Rightarrow> char" where
  "hex_digit d = ''0123456789abcdef'' ! d"

definition isprintable_char :: "char \<Rightarrow> bool" where
  "isprintable_char c = (let n = (of_char c :: nat) in
     32 \<le> n \<and> n \<noteq> 127 \<and> \<not> (128 \<le> n \<and> n \<le> 160) \<and> n \<noteq> 173)"

definition repr_char :: "char \<Rightarrow> char \<Rightarrow> string" where
  "repr_char quote c =
     (if c = quote \<or> c = CHR 0x5C then [CHR 0x5C, c]
      else if c = CHR 0x09 then [CHR 0x5C, CHR ''t'']
      else if c = CHR 0x0A then [CHR 0x5C, CHR ''n'']
      else if c = CHR 0x0D then [CHR 0x5C, CHR ''r'']
      else if isprintable_char c then [c]
      else [CHR 0x5C, CHR ''x'', hex_digit (of_char c div 16), hex_digit (of_char c mod 16)])"

definition repr_str :: "string \<Rightarrow> string" where
  "repr_str s =
     (let quote = (if CHR 0x27 \<in> set s \<and> CHR 0x22 \<notin> set s then CHR 0x22 else CHR 0x27)
      in quote # concat (map (repr_char quote) s) @ [quote])"

fun join :: "string \<Rightarrow> string list \<Rightarrow> string" where
  "join sep [] = []"
| "join sep [x] = x"
| "join sep (x # y # ys) = x @ sep @ join sep (y # ys)"

fun py_repr :: "pyval \<Rightarrow> string" where
  "py_repr PNone = ''None''"
| "py_repr (PBool b) = (if b then ''True'' else ''False'')"
| "py_repr (PInt i) = str_int i"
| "py_repr (PStr s) = repr_str s"
| "py_repr (PList xs) = ''['' @ join '', '' (map py_repr xs) @ '']''"
| "py_repr (PDict kvs) =
     ''{'' @ join '', '' (map (\<lambda>kv. repr_str (fst kv) @ '': '' @ py_repr (snd kv)) kvs) @ ''}''"

text \<open>\<^verbatim>\<open>str(v)\<close>, also what an f-string renders.\<close>

definition py_str :: "pyval \<Rightarrow> string" where
  "py_str v = (case v of PStr s \<Rightarrow> s | _ \<Rightarrow> py_repr v)"

section \<open>Configuration and its validation\<close>

text \<open>\<^verbatim>\<open>VMConfig._default_config\<close>.\<close>

definition default_config :: pydict where
  "default_config =
    [(''vm_name'', PStr ''azure-vm-prod''),
     (''resource_group'', PStr ''rg-azure-vm''),
     (''location'', PStr ''East US''),
     (''vm_size'', PStr ''Standard_B2s''),
     (''admin_username'', PStr ''azureuser''),
     (''os_type'', PStr ''linux''),
     (''image'', PDict
        [(''publisher'', PStr ''Canonical''),
         (''offer'', PStr ''0001-com-ubuntu-server-focal''),
         (''sku'', PStr ''20_04-lts-gen2''),
         (''version'', PStr ''latest'')]),
     (''network'', PDict
        [(''vnet_name'', PStr ''vnet-azure-vm''),
         (''vnet_address_space'', PStr ''10.0.0.0/16''),
         (''subnet_name'', PStr ''subnet-default''),
         (''subnet_address_prefix'', PStr ''10.0.0.0/24''),
         (''public_ip_name'', PStr ''ip-azure-vm''),
         (''nsg_name'', PStr ''nsg-azure-vm''),
         (''nic_name'', PStr ''nic-azure-vm'')]),
     (''disk'', PDict
        [(''os_disk_size_gb'', PInt 30),
         (''storage_account_type'', PStr ''Premium_LRS'')]),
     (''security'', PDict
        [(''ssh_port'', PInt 22),
         (''allowed_ssh_sources'', PList [PStr ''*''])]),
     (''tags'', PDict
        [(''Environment'', PStr ''Production''),
         (''CreatedBy'', PStr ''AzureVMCreator''),
         (''Project'', PStr ''Infrastructure'')])]"

text \<open>\<^verbatim>\<open>VMConfig.get(key, default)\<close>; the default is \<^verbatim>\<open>None\<close> when not given.\<close>

definition config_get :: "pydict \<Rightarrow> string \<Rightarrow> pyval \<Rightarrow> pyval" where
  "config_get cfg k dflt = dict_get cfg k dflt"

text \<open>What \<^verbatim>\<open>validate\<close> logs next to the boolean it returns: the error naming the
  missing field, the error about the name of the machine, or the final information line.\<close>

datatype validation_log =
    Campo_requerido_faltante string
  | Nombre_de_VM_invalido
  | Configuracion_validada

definition required_fields :: "string list" where
  "required_fields = [''vm_name'', ''resource_group'', ''location'', ''admin_username'']"

text \<open>The loop over \<^verbatim>\<open>required_fields\<close>: the first field whose value is missing or
  falsy.\<close>

fun first_missing :: "pydict \<Rightarrow> string list \<Rightarrow> string option" where
  "first_missing cfg [] = None"
| "first_missing cfg (field # fields) =
     (if \<not> truthy (dict_get cfg field PNone) then Some field else first_missing cfg fields)"

text \<open>The name test on a string:
  \<^verbatim>\<open>1 <= len(vm_name) <= 64 and vm_name.replace('-', '').replace('_', '').isalnum()\<close>.\<close>

definition vm_name_ok :: "string \<Rightarrow> bool" where
  "vm_name_ok s =
     (1 \<le> length s \<and> length s \<le> 64 \<and> isalnum (replace_del CHR ''_'' (replace_del CHR ''-'' s)))"

text \<open>The same test on any value: \<^verbatim>\<open>len\<close> raises on a value without a length, and
  \<^verbatim>\<open>replace\<close>, reached only when the length is in range, is a method of strings only.\<close>

definition vm_name_test :: "pyval \<Rightarrow> exn + bool" where
  "vm_name_test v =
     (case py_len v of
        Inl e \<Rightarrow> Inl e
      | Inr n \<Rightarrow>
          if 1 \<le> n \<and> n \<le> 64
          then (case v of PStr s \<Rightarrow> Inr (vm_name_ok s) | _ \<Rightarrow> Inl AttributeError)
          else Inr False)"

text \<open>\<^verbatim>\<open>VMConfig.validate\<close>.\<close>

definition validate :: "pydict \<Rightarrow> exn + bool \<times> validation_log" where
  "validate cfg =
     (case first_missing cfg required_fields of
        Some field \<Rightarrow> Inr (False, Campo_requerido_faltante field)
      | None \<Rightarrow>
          (case map_of cfg ''vm_name'' of
             None \<Rightarrow> Inl KeyError
           | Some vm_name \<Rightarrow>
               (case vm_name_test vm_name of
                  Inl e \<Rightarrow> Inl e
                | Inr ok \<Rightarrow>
                    if \<not> ok then Inr (False, Nombre_de_VM_invalido)
                    else Inr (True, Configuracion_validada))))"

section \<open>The Azure clients and the effects of the script\<close>

text \<open>
  The operations the script invokes on its three clients. A \<^verbatim>\<open>begin_create_or_update\<close>
  followed by \<^verbatim>\<open>result()\<close> is one blocking interaction: it returns the resource or
  raises.
\<close>

datatype operation =
    ResourceGroups_get
  | ResourceGroups_create_or_update
  | VirtualNetworks_create_or_update
  | Subnets_create_or_update
  | PublicIPAddresses_create_or_update
  | NetworkSecurityGroups_create_or_update
  | NetworkInterfaces_create_or_update
  | VirtualMachines_create_or_update
  | VirtualMachines_get
  | PublicIPAddresses_get

text \<open>The object a client returns, with the attributes the script reads; an attribute
  holds a string or \<^verbatim>\<open>None\<close>. \<open>hardware_profile\<close> is \<open>None\<close> when the attribute itself is
  \<^verbatim>\<open>None\<close>, and otherwise holds its \<^verbatim>\<open>vm_size\<close>.\<close>

record resource =
  res_name :: pyval
  res_id :: pyval
  res_location :: pyval
  vm_id :: pyval
  hardware_profile :: "pyval option"
  provisioning_state :: pyval
  ip_address :: pyval

text \<open>
  The world outside the script, of any type \<open>'w\<close>: the clients answer a request (the
  operation and its positional arguments, the parameter dictionary last) with a resource or
  an exception, and \<^verbatim>\<open>datetime.now().isoformat()\<close> reads the clock. Both may change the
  world.
\<close>

record 'w azure =
  request :: "operation \<Rightarrow> pyval list \<Rightarrow> 'w \<Rightarrow> (exn + resource) \<times> 'w"
  clock :: "'w \<Rightarrow> string \<times> 'w"

text \<open>What a run does, in order: clock readings and requests with their answers.\<close>

datatype event =
    Clock string
  | Remote operation "pyval list" "exn + resource"

text \<open>
  A method of \<^verbatim>\<open>AzureVMCreator\<close> runs on the configuration dictionary (which
  \<^verbatim>\<open>_add_tags\<close> mutates) and the world; it returns or raises, and leaves its events.
\<close>

type_synonym ('w, 'a) prog = "pydict \<times> 'w \<Rightarrow> (exn + 'a) \<times> event list \<times> (pydict \<times> 'w)"

definition result :: "(exn + 'a) \<times> event list \<times> (pydict \<times> 'w) \<Rightarrow> exn + 'a" where
  "result r = fst r"

definition events :: "(exn + 'a) \<times> event list \<times> (pydict \<times> 'w) \<Rightarrow> event list" where
  "events r = fst (snd r)"

definition final_config :: "(exn + 'a) \<times> event list \<times> (pydict \<times> 'w) \<Rightarrow> pydict" where
  "final_config r = fst (snd (snd r))"

definition final_world :: "(exn + 'a) \<times> event list \<times> (pydict \<times> 'w) \<Rightarrow> 'w" where
  "final_world r = snd (snd (snd r))"

definition return :: "'a \<Rightarrow> ('w, 'a) prog" where
  "return x s = (Inr x, [], s)"

definition raise :: "exn \<Rightarrow> ('w, 'a) prog" where
  "raise e s = (Inl e, [], s)"

definition lift :: "exn + 'a \<Rightarrow> ('w, 'a) prog" where
  "lift r s = (r, [], s)"

definition bind :: "('w, 'a) prog \<Rightarrow> ('a \<Rightarrow> ('w, 'b) prog) \<Rightarrow> ('w, 'b) prog" where
  "bind m f s =
     (case m s of
        (Inl e, evs, s') \<Rightarrow> (Inl e, evs, s')
      | (Inr x, evs, s') \<Rightarrow> (case f x s' of (r, evs', s'') \<Rightarrow> (r, evs @ evs', s'')))"

text \<open>\<^verbatim>\<open>try: m  except: h\<close>, for the handlers that catch every exception.\<close>

definition try_except :: "('w, 'a) prog \<Rightarrow> (exn \<Rightarrow> ('w, 'a) prog) \<Rightarrow> ('w, 'a) prog" where
  "try_except m h s =
     (case m s of
        (Inl e, evs, s') \<Rightarrow> (case h e s' of (r, evs', s'') \<Rightarrow> (r, evs @ evs', s''))
      | (Inr x, evs, s') \<Rightarrow> (Inr x, evs, s'))"

definition get_config :: "('w, pydict) prog" where
  "get_config s = (Inr (fst s), [], s)"

definition put_config :: "pydict \<Rightarrow> ('w, unit) prog" where
  "put_config cfg s = (Inr (), [], (cfg, snd s))"

definition call :: "'w azure \<Rightarrow> operation \<Rightarrow> pyval list \<Rightarrow> ('w, resource) prog" where
  "call az op args s =
     (case request az op args (snd s) of (r, w') \<Rightarrow> (r, [Remote op args r], (fst s, w')))"

definition now_isoformat :: "'w azure \<Rightarrow> ('w, string) prog" where
  "now_isoformat az s =
     (case clock az (snd s) of (t, w') \<Rightarrow> (Inr t, [Clock t], (fst s, w')))"

section \<open>The creation steps\<close>

text \<open>
  \<^verbatim>\<open>_add_tags(params)\<close>. \<^verbatim>\<open>self.config.get('tags', {})\<close> is the dictionary stored in the
  configuration when the key is there, and a new empty one otherwise; the timestamp is
  computed, then stored in that dictionary under \<^verbatim>\<open>CreatedAt\<close> (a \<^verbatim>\<open>TypeError\<close> when the
  value is no dictionary), so the stored configuration changes with it. The function returns
  the parameters with the tags attached.
\<close>

definition add_tags :: "'w azure \<Rightarrow> pydict \<Rightarrow> ('w, pydict) prog" where
  "add_tags az params =
     bind get_config (\<lambda>cfg.
     bind (now_isoformat az) (\<lambda>created_at.
       case config_get cfg ''tags'' (PDict []) of
         PDict tags \<Rightarrow>
           let tags' = AList.update ''CreatedAt'' (PStr created_at) tags;
               cfg' = (if map_of cfg ''tags'' = None then cfg
                       else AList.update ''tags'' (PDict tags') cfg)
           in bind (put_config cfg') (\<lambda>_.
                return (if truthy (PDict tags') then AList.update ''tags'' (PDict tags') params
                        else params))
       | _ \<Rightarrow> raise TypeError))"

text \<open>\<^verbatim>\<open>create_resource_group\<close>: the existence probe catches every exception.\<close>

definition create_resource_group ::
  "'w azure \<Rightarrow> pyval \<Rightarrow> pyval \<Rightarrow> ('w, resource) prog" where
  "create_resource_group az resource_group_name location =
     try_except (call az ResourceGroups_get [resource_group_name])
       (\<lambda>e. bind (add_tags az [(''location'', location)]) (\<lambda>rg_params.
              call az ResourceGroups_create_or_update [resource_group_name, PDict rg_params]))"

text \<open>\<^verbatim>\<open>create_virtual_network\<close>.\<close>

definition create_virtual_network ::
  "'w azure \<Rightarrow> pyval \<Rightarrow> pyval \<Rightarrow> pyval \<Rightarrow> ('w, resource) prog" where
  "create_virtual_network az resource_group_name vnet_name location =
     bind get_config (\<lambda>cfg.
     let network_config = config_get cfg ''network'' (PDict []) in
     bind (lift (py_get network_config ''vnet_address_space'' (PStr ''10.0.0.0/16'')))
       (\<lambda>vnet_address_space.
     bind (add_tags az
             [(''location'', location),
              (''address_space'', PDict [(''address_prefixes'', PList [vnet_address_space])])])
       (\<lambda>vnet_params.
     call az VirtualNetworks_create_or_update
       [resource_group_name, vnet_name, PDict vnet_params])))"

text \<open>\<^verbatim>\<open>create_subnet\<close>: the only step without \<^verbatim>\<open>_add_tags\<close>.\<close>

definition create_subnet ::
  "'w azure \<Rightarrow> pyval \<Rightarrow> pyval \<Rightarrow> pyval \<Rightarrow> ('w, resource) prog" where
  "create_subnet az resource_group_name vnet_name subnet_name =
     bind get_config (\<lambda>cfg.
     let network_config = config_get cfg ''network'' (PDict []) in
     bind (lift (py_get network_config ''subnet_address_prefix'' (PStr ''10.0.0.0/24'')))
       (\<lambda>subnet_address_prefix.
     call az Subnets_create_or_update
       [resource_group_name, vnet_name, subnet_name,
        PDict [(''address_prefix'', subnet_address_prefix)]]))"

text \<open>\<^verbatim>\<open>create_public_ip\<close>.\<close>

definition create_public_ip ::
  "'w azure \<Rightarrow> pyval \<Rightarrow> pyval \<Rightarrow> pyval \<Rightarrow> ('w, resource) prog" where
  "create_public_ip az resource_group_name ip_name location =
     bind (add_tags az
             [(''location'', location),
              (''public_ip_allocation_method'', PStr ''Static''),
              (''sku'', PDict [(''name'', PStr ''Standard'')])])
       (\<lambda>public_ip_params.
     call az PublicIPAddresses_create_or_update
       [resource_group_name, ip_name, PDict public_ip_params])"

text \<open>
  The rule list of \<^verbatim>\<open>create_network_security_group\<close>: one rule per element of
  \<^verbatim>\<open>enumerate(allowed_sources)\<close>, then the rule that denies the rest.
\<close>

definition ssh_rule :: "nat \<Rightarrow> pyval \<Rightarrow> pyval \<Rightarrow> pyval" where
  "ssh_rule i ssh_port source =
     PDict
       [(''name'', PStr (''SSH_'' @ str_int (int i + 1))),
        (''protocol'', PStr ''Tcp''),
        (''source_port_range'', PStr ''*''),
        (''destination_port_range'', PStr (py_str ssh_port)),
        (''source_address_prefix'', source),
        (''destination_address_prefix'', PStr ''*''),
        (''access'', PStr ''Allow''),
        (''priority'', PInt (1000 + int i)),
        (''direction'', PStr ''Inbound'')]"

fun ssh_rules :: "nat \<Rightarrow> pyval \<Rightarrow> pyval list \<Rightarrow> pyval list" where
  "ssh_rules i ssh_port [] = []"
| "ssh_rules i ssh_port (source # sources) =
     ssh_rule i ssh_port source # ssh_rules (Suc i) ssh_port sources"

definition deny_all_inbound :: pyval where
  "deny_all_inbound =
     PDict
       [(''name'', PStr ''DenyAllInbound''),
        (''protocol'', PStr ''*''),
        (''source_port_range'', PStr ''*''),
        (''destination_port_range'', PStr ''*''),
        (''source_address_prefix'', PStr ''*''),
        (''destination_address_prefix'', PStr ''*''),
        (''access'', PStr ''Deny''),
        (''priority'', PInt 4096),
        (''direction'', PStr ''Inbound'')]"

definition security_rules :: "pydict \<Rightarrow> exn + pyval list" where
  "security_rules cfg =
     (let security_config = config_get cfg ''security'' (PDict []) in
      case py_get security_config ''ssh_port'' (PInt 22) of
        Inl e \<Rightarrow> Inl e
      | Inr ssh_port \<Rightarrow>
          (case py_get security_config ''allowed_ssh_sources'' (PList [PStr ''*'']) of
             Inl e \<Rightarrow> Inl e
           | Inr allowed_sources \<Rightarrow>
               (case py_iter allowed_sources of
                  Inl e \<Rightarrow> Inl e
                | Inr sources \<Rightarrow> Inr (ssh_rules 0 ssh_port sources @ [deny_all_inbound]))))"

text \<open>\<^verbatim>\<open>create_network_security_group\<close>.\<close>

definition create_network_security_group ::
  "'w azure \<Rightarrow> pyval \<Rightarrow> pyval \<Rightarrow> pyval \<Rightarrow> ('w, resource) prog" where
  "create_network_security_group az resource_group_name nsg_name location =
     bind get_config (\<lambda>cfg.
     bind (lift (security_rules cfg)) (\<lambda>rules.
     bind (add_tags az [(''location'', location), (''security_rules'', PList rules)])
       (\<lambda>nsg_params.
     call az NetworkSecurityGroups_create_or_update
       [resource_group_name, nsg_name, PDict nsg_params])))"

text \<open>\<^verbatim>\<open>create_network_interface\<close>.\<close>

definition create_network_interface ::
  "'w azure \<Rightarrow> pyval \<Rightarrow> pyval \<Rightarrow> pyval \<Rightarrow> pyval \<Rightarrow> pyval \<Rightarrow> pyval \<Rightarrow> ('w, resource) prog" where
  "create_network_interface az resource_group_name nic_name location
       subnet_id public_ip_id nsg_id =
     bind (add_tags az
             [(''location'', location),
              (''ip_configurations'', PList
                 [PDict
                    [(''name'', PStr ''default''),
                     (''subnet'', PDict [(''id'', subnet_id)]),
                     (''public_ip_address'', PDict [(''id'', public_ip_id)]),
                     (''private_ip_allocation_method'', PStr ''Dynamic'')]]),
              (''network_security_group'', PDict [(''id'', nsg_id)])])
       (\<lambda>nic_params.
     call az NetworkInterfaces_create_or_update
       [resource_group_name, nic_name, PDict nic_params])"

text \<open>\<^verbatim>\<open>create_virtual_machine\<close>; \<^verbatim>\<open>DiskCreateOption.from_image\<close> is the string
  \<^verbatim>\<open>FromImage\<close>.\<close>

definition create_virtual_machine ::
  "'w azure \<Rightarrow> pyval \<Rightarrow> pyval \<Rightarrow> pyval \<Rightarrow> pyval \<Rightarrow> pyval \<Rightarrow> pyval \<Rightarrow> ('w, resource) prog" where
  "create_virtual_machine az resource_group_name vm_name location
       nic_id admin_username admin_password =
     bind get_config (\<lambda>cfg.
     let image_config = config_get cfg ''image'' (PDict []);
         disk_config = config_get cfg ''disk'' (PDict [])
     in
     bind (lift (py_get image_config ''publisher'' (PStr ''Canonical''))) (\<lambda>publisher.
     bind (lift (py_get image_config ''offer'' (PStr ''0001-com-ubuntu-server-focal'')))
       (\<lambda>offer.
     bind (lift (py_get image_config ''sku'' (PStr ''20_04-lts-gen2''))) (\<lambda>sku.
     bind (lift (py_get image_config ''version'' (PStr ''latest''))) (\<lambda>version.
     bind (lift (py_get disk_config ''storage_account_type'' (PStr ''Premium_LRS'')))
       (\<lambda>storage_account_type.
     bind (lift (py_get disk_config ''os_disk_size_gb'' (PInt 30))) (\<lambda>os_disk_size_gb.
     bind (add_tags az
             [(''location'', location),
              (''os_profile'', PDict
                 [(''computer_name'', vm_name),
                  (''admin_username'', admin_username),
                  (''admin_password'', admin_password),
                  (''disable_password_authentication'', PBool False)]),
              (''hardware_profile'', PDict
                 [(''vm_size'', config_get cfg ''vm_size'' (PStr ''Standard_B2s''))]),
              (''storage_profile'', PDict
                 [(''image_reference'', PDict
                     [(''publisher'', publisher),
                      (''offer'', offer),
                      (''sku'', sku),
                      (''version'', version)]),
                  (''os_disk'', PDict
                     [(''caching'', PStr ''ReadWrite''),
                      (''managed_disk'', PDict
                         [(''storage_account_type'', storage_account_type)]),
                      (''name'', PStr (py_str vm_name @ ''-osdisk'')),
                      (''create_option'', PStr ''FromImage''),
                      (''disk_size_gb'', os_disk_size_gb)])]),
              (''network_profile'', PDict
                 [(''network_interfaces'', PList [PDict [(''id'', nic_id)]])])])
       (\<lambda>vm_params.
     call az VirtualMachines_create_or_update
       [resource_group_name, vm_name, PDict vm_params]))))))))"

section \<open>Reading the machine back, and the whole run\<close>

text \<open>
  The public address read by \<^verbatim>\<open>get_vm_info\<close>: \<^verbatim>\<open>"No asignada"\<close> unless a name is
  configured and its lookup returns; then the address, or \<^verbatim>\<open>"Pendiente"\<close> when the
  address is empty or \<^verbatim>\<open>None\<close>.
\<close>

definition public_ip_address_of ::
  "'w azure \<Rightarrow> pyval \<Rightarrow> pyval \<Rightarrow> ('w, pyval) prog" where
  "public_ip_address_of az resource_group_name public_ip_name =
     (if truthy public_ip_name
      then try_except
             (bind (call az PublicIPAddresses_get [resource_group_name, public_ip_name])
                (\<lambda>public_ip.
                   return (if truthy (ip_address public_ip) then ip_address public_ip
                           else PStr ''Pendiente'')))
             (\<lambda>e. return (PStr ''No asignada''))
      else return (PStr ''No asignada''))"

text \<open>\<^verbatim>\<open>get_vm_info\<close>: the summary dictionary, or the empty dictionary on any
  exception.\<close>

definition get_vm_info :: "'w azure \<Rightarrow> pyval \<Rightarrow> pyval \<Rightarrow> ('w, pydict) prog" where
  "get_vm_info az resource_group_name vm_name =
     try_except
       (bind (call az VirtualMachines_get [resource_group_name, vm_name]) (\<lambda>vm.
        bind get_config (\<lambda>cfg.
        let network_config = config_get cfg ''network'' (PDict []) in
        bind (lift (py_get network_config ''public_ip_name'' PNone)) (\<lambda>public_ip_name.
        bind (public_ip_address_of az resource_group_name public_ip_name)
          (\<lambda>public_ip_address.
        case hardware_profile vm of
          None \<Rightarrow> raise AttributeError
        | Some vm_size \<Rightarrow>
            return
              [(''vm_name'', res_name vm),
               (''vm_id'', vm_id vm),
               (''location'', res_location vm),
               (''vm_size'', vm_size),
               (''provisioning_state'', provisioning_state vm),
               (''public_ip'', public_ip_address),
               (''admin_username'', config_get cfg ''admin_username'' PNone)])))))
       (\<lambda>e. return [])"

text \<open>The body of \<^verbatim>\<open>create_complete_vm\<close> inside its \<^verbatim>\<open>try\<close>.\<close>

definition create_all :: "'w azure \<Rightarrow> ('w, resource) prog" where
  "create_all az =
     bind get_config (\<lambda>cfg.
     let vm_name = config_get cfg ''vm_name'' PNone;
         resource_group = config_get cfg ''resource_group'' PNone;
         location = config_get cfg ''location'' PNone;
         admin_username = config_get cfg ''admin_username'' PNone;
         admin_password = config_get cfg ''admin_password'' PNone;
         network_config = config_get cfg ''network'' (PDict [])
     in
     bind (create_resource_group az resource_group location) (\<lambda>_.
     bind (lift (py_get network_config ''vnet_name'' PNone)) (\<lambda>vnet_name.
     bind (create_virtual_network az resource_group vnet_name location) (\<lambda>_.
     bind (lift (py_get network_config ''vnet_name'' PNone)) (\<lambda>vnet_name.
     bind (lift (py_get network_config ''subnet_name'' PNone)) (\<lambda>subnet_name.
     bind (create_subnet az resource_group vnet_name subnet_name) (\<lambda>subnet.
     bind (lift (py_get network_config ''public_ip_name'' PNone)) (\<lambda>public_ip_name.
     bind (create_public_ip az resource_group public_ip_name location) (\<lambda>public_ip.
     bind (lift (py_get network_config ''nsg_name'' PNone)) (\<lambda>nsg_name.
     bind (create_network_security_group az resource_group nsg_name location) (\<lambda>nsg.
     bind (lift (py_get network_config ''nic_name'' PNone)) (\<lambda>nic_name.
     bind (create_network_interface az resource_group nic_name location
             (res_id subnet) (res_id public_ip) (res_id nsg)) (\<lambda>nic.
     bind (create_virtual_machine az resource_group vm_name location
             (res_id nic) admin_username admin_password) (\<lambda>vm.
     bind (get_vm_info az resource_group vm_name) (\<lambda>vm_info.
     return vm)))))))))))))))"

text \<open>\<^verbatim>\<open>create_complete_vm\<close>: the machine, or \<^verbatim>\<open>None\<close> after any exception.\<close>

definition create_complete_vm :: "'w azure \<Rightarrow> ('w, resource option) prog" where
  "create_complete_vm az =
     try_except (bind (create_all az) (\<lambda>vm. return (Some vm))) (\<lambda>e. return None)"

section \<open>Reading the events of a run\<close>

text \<open>The requests of a list of events, in order, without their answers.\<close>

fun requests :: "event list \<Rightarrow> (operation \<times> pyval list) list" where
  "requests [] = []"
| "requests (Clock t # evs) = requests evs"
| "requests (Remote op args r # evs) = (op, args) # requests evs"

text \<open>The parameter dictionary of a request: its last positional argument, and an entry
  of it.\<close>

definition params_of :: "pyval list \<Rightarrow> pydict" where
  "params_of args = (case rev args of PDict d # _ \<Rightarrow> d | _ \<Rightarrow> [])"

definition param :: "pyval list \<Rightarrow> string \<Rightarrow> pyval option" where
  "param args k = map_of (params_of args) k"

text \<open>A field of a security rule.\<close>

definition rule_field :: "pyval \<Rightarrow> string \<Rightarrow> pyval" where
  "rule_field r k = (case r of PDict d \<Rightarrow> dict_get d k PNone | _ \<Rightarrow> PNone)"

section \<open>The rules of the specification, for comparison\<close>

text \<open>The name rule as the specification words it: one to 64 characters, each an ASCII
  letter, an ASCII digit, a hyphen or an underscore.\<close>

definition ascii_name_char :: "char \<Rightarrow> bool" where
  "ascii_name_char c = (let n = (of_char c :: nat) in
     (48 \<le> n \<and> n \<le> 57) \<or> (65 \<le> n \<and> n \<le> 90) \<or> (97 \<le> n \<and> n \<le> 122) \<or>
     c = CHR ''-'' \<or> c = CHR ''_'')"

definition spec_vm_name :: "string \<Rightarrow> bool" where
  "spec_vm_name s = (1 \<le> length s \<and> length s \<le> 64 \<and> list_all ascii_name_char s)"

text \<open>Rule 1 of the specification: the five required fields are present and non-empty.\<close>

definition spec_required_present :: "pydict \<Rightarrow> bool" where
  "spec_required_present cfg =
     list_all (\<lambda>field. truthy (dict_get cfg field PNone))
       [''vm_name'', ''resource_group'', ''location'', ''admin_username'', ''admin_password'']"

text \<open>Rule 5 of the specification: the SSH port is an integer from 1 to 65535.\<close>

definition spec_ssh_port_in_range :: "pydict \<Rightarrow> bool" where
  "spec_ssh_port_in_range cfg =
     (case map_of cfg ''security'' of
        Some (PDict security) \<Rightarrow>
          (case map_of security ''ssh_port'' of
             Some (PInt p) \<Rightarrow> 1 \<le> p \<and> p \<le> 65535
           | _ \<Rightarrow> False)
      | _ \<Rightarrow> False)"

text \<open>Whether \<^verbatim>\<open>_add_tags\<close> can store its timestamp: the configured tags are absent or a
  dictionary.\<close>

definition tags_usable :: "pydict \<Rightarrow> bool" where
  "tags_usable cfg = (case config_get cfg ''tags'' (PDict []) of PDict tags \<Rightarrow> True | _ \<Rightarrow> False)"

section \<open>A simulated Azure, for running examples\<close>

text \<open>
  The world holds the names of the resource groups that exist and the next clock reading.
  A looked-up group is found when it exists; creating a group makes it exist; every other
  request succeeds; the operations listed in \<open>failing\<close> raise instead. The clock appends a
  mark to its reading, so that no two readings are equal.
\<close>

definition resource_name :: "pyval list \<Rightarrow> pyval" where
  "resource_name args =
     (case rev args of
        PDict d # n # _ \<Rightarrow> n
      | n # _ \<Rightarrow> n
      | [] \<Rightarrow> PNone)"

definition sim_resource :: "pyval list \<Rightarrow> resource" where
  "sim_resource args =
     \<lparr>res_name = resource_name args,
      res_id = PStr (''/id/'' @ py_str (resource_name args)),
      res_location = PStr ''eastus'',
      vm_id = PStr ''0000-0001'',
      hardware_profile = Some (PStr ''Standard_B2s''),
      provisioning_state = PStr ''Succeeded'',
      ip_address = PNone\<rparr>"

definition sim_request ::
  "operation list \<Rightarrow> operation \<Rightarrow> pyval list \<Rightarrow> pyval list \<times> string \<Rightarrow>
     (exn + resource) \<times> (pyval list \<times> string)" where
  "sim_request failing op args w =
     (if op \<in> set failing then (Inl (AzureError ''request failed''), w)
      else if op = ResourceGroups_get
        then (if resource_name args \<in> set (fst w) then Inr (sim_resource args)
              else Inl (AzureError ''ResourceGroupNotFound''), w)
      else if op = ResourceGroups_create_or_update
        then (Inr (sim_resource args), (resource_name args # fst w, snd w))
      else (Inr (sim_resource args), w))"

definition sim_azure :: "operation list \<Rightarrow> (pyval list \<times> string) azure" where
  "sim_azure failing =
     \<lparr>request = sim_request failing, clock = (\<lambda>w. (snd w, (fst w, snd w @ ''+'')))\<rparr>"

text \<open>The scenario of the specification: the default configuration with the name, group,
  password and SSH source of the example.\<close>

definition web01_config :: pydict where
  "web01_config =
     AList.update ''security''
       (PDict [(''ssh_port'', PInt 22), (''allowed_ssh_sources'', PList [PStr ''10.0.0.0/8''])])
       (AList.update ''admin_password'' (PStr ''Str0ngPass!'')
          (AList.update ''resource_group'' (PStr ''rg-web'')
             (AList.update ''vm_name'' (PStr ''web01'') default_config)))"

section \<open>Properties of the events of a run\<close>

text \<open>
  The step a request belongs to, in the order of \<^verbatim>\<open>create_complete_vm\<close>: the seven
  creation steps (the probe of the resource group belongs to the first), then the two
  requests that read the machine back.
\<close>

fun step_of :: "operation \<Rightarrow> nat" where
  "step_of ResourceGroups_get = 0"
| "step_of ResourceGroups_create_or_update = 0"
| "step_of VirtualNetworks_create_or_update = 1"
| "step_of Subnets_create_or_update = 2"
| "step_of PublicIPAddresses_create_or_update = 3"
| "step_of NetworkSecurityGroups_create_or_update = 4"
| "step_of NetworkInterfaces_create_or_update = 5"
| "step_of VirtualMachines_create_or_update = 6"
| "step_of VirtualMachines_get = 7"
| "step_of PublicIPAddresses_get = 8"

definition is_create :: "operation \<Rightarrow> bool" where
  "is_create op = (op \<noteq> ResourceGroups_get \<and> op \<noteq> VirtualMachines_get \<and> op \<noteq> PublicIPAddresses_get)"

text \<open>The creation requests that go through \<^verbatim>\<open>_add_tags\<close>: all but the subnet's.\<close>

definition is_tagged :: "operation \<Rightarrow> bool" where
  "is_tagged op = (is_create op \<and> op \<noteq> Subnets_create_or_update)"

text \<open>
  \<open>orderly k evs\<close>: with \<open>k\<close> steps done, every request of \<open>evs\<close> belongs to the step that
  follows the steps done so far; a request that returns completes its step; after a
  request that raises nothing more happens, unless it is the probe of the resource group.
\<close>

fun orderly :: "nat \<Rightarrow> event list \<Rightarrow> bool" where
  "orderly k [] = True"
| "orderly k (Clock t # evs) = orderly k evs"
| "orderly k (Remote op args r # evs) =
     (step_of op = k \<and>
      (case r of
         Inr h \<Rightarrow> orderly (Suc k) evs
       | Inl e \<Rightarrow> if op = ResourceGroups_get then orderly k evs else evs = []))"

text \<open>The number of requests that returned, and whether none raised but probes of the
  resource group.\<close>

fun successes :: "event list \<Rightarrow> nat" where
  "successes [] = 0"
| "successes (Clock t # evs) = successes evs"
| "successes (Remote op args r # evs) = (case r of Inr h \<Rightarrow> Suc (successes evs) | Inl e \<Rightarrow> successes evs)"

fun alive :: "event list \<Rightarrow> bool" where
  "alive [] = True"
| "alive (Clock t # evs) = alive evs"
| "alive (Remote op args r # evs) =
     ((case r of Inr h \<Rightarrow> True | Inl e \<Rightarrow> op = ResourceGroups_get) \<and> alive evs)"

text \<open>
  The attempts of a list of events: its requests in order, each with whether it returned
  (\<open>True\<close>) or raised (\<open>False\<close>). \<open>ordered\<close> is \<open>orderly\<close> read on the attempts.
\<close>

fun attempts :: "event list \<Rightarrow> (operation \<times> bool) list" where
  "attempts [] = []"
| "attempts (Clock t # evs) = attempts evs"
| "attempts (Remote op args r # evs) =
     (op, (case r of Inr h \<Rightarrow> True | Inl e \<Rightarrow> False)) # attempts evs"

fun ordered :: "nat \<Rightarrow> (operation \<times> bool) list \<Rightarrow> bool" where
  "ordered k [] = True"
| "ordered k ((op, b) # as) =
     (step_of op = k \<and>
      (if b then ordered (Suc k) as
       else if op = ResourceGroups_get then ordered k as else as = []))"

text \<open>The machine returned by the request that creates it, if any.\<close>

fun created_vm :: "event list \<Rightarrow> resource option" where
  "created_vm [] = None"
| "created_vm (Clock t # evs) = created_vm evs"
| "created_vm (Remote op args r # evs) =
     (case r of
        Inr h \<Rightarrow> (if op = VirtualMachines_create_or_update then Some h else created_vm evs)
      | Inl e \<Rightarrow> created_vm evs)"

text \<open>The tags the configuration gives (none when it has no dictionary of tags), and these
  tags with the timestamp \<open>t\<close>.\<close>

definition configured_tags :: "pydict \<Rightarrow> pydict" where
  "configured_tags cfg = (case config_get cfg ''tags'' (PDict []) of PDict tags \<Rightarrow> tags | _ \<Rightarrow> [])"

definition stamp :: "pydict \<Rightarrow> string \<Rightarrow> pydict" where
  "stamp cfg t = AList.update ''CreatedAt'' (PStr t) (configured_tags cfg)"

text \<open>
  \<open>stamped T pending evs\<close>: every tagged creation request of \<open>evs\<close> comes right after a
  clock reading \<open>t\<close> (\<open>pending\<close> is the reading right before \<open>evs\<close>, if any) and carries the
  tags \<open>T t\<close>; the request that creates the subnet carries no tags.
\<close>

definition tag_rule :: "(string \<Rightarrow> pydict) \<Rightarrow> string option \<Rightarrow> operation \<Rightarrow> pyval list \<Rightarrow> bool" where
  "tag_rule T pending op args =
     (if is_tagged op
      then (case pending of None \<Rightarrow> False | Some t \<Rightarrow> param args ''tags'' = Some (PDict (T t)))
      else if op = Subnets_create_or_update then param args ''tags'' = None
      else True)"

fun stamped :: "(string \<Rightarrow> pydict) \<Rightarrow> string option \<Rightarrow> event list \<Rightarrow> bool" where
  "stamped T pending [] = True"
| "stamped T pending (Clock t # evs) = stamped T (Some t) evs"
| "stamped T pending (Remote op args r # evs) = (tag_rule T pending op args \<and> stamped T None evs)"

text \<open>The last clock reading of a list of events (\<open>before\<close> when it has none), and the
  configuration as \<^verbatim>\<open>_add_tags\<close> leaves it after the reading \<open>t\<close>: the stored dictionary
  of tags holds \<open>t\<close> under \<^verbatim>\<open>CreatedAt\<close>.\<close>

fun last_clock :: "string option \<Rightarrow> event list \<Rightarrow> string option" where
  "last_clock before [] = before"
| "last_clock before (Clock t # evs) = last_clock (Some t) evs"
| "last_clock before (Remote op args r # evs) = last_clock before evs"

definition mutated :: "pydict \<Rightarrow> string option \<Rightarrow> pydict" where
  "mutated cfg reading =
     (case reading of
        None \<Rightarrow> cfg
      | Some t \<Rightarrow>
          (case map_of cfg ''tags'' of
             Some (PDict tags) \<Rightarrow> AList.update ''tags'' (PDict (stamp cfg t)) cfg
           | _ \<Rightarrow> cfg))"

text \<open>
  What the proofs carry through a run that started from the configuration \<open>cfg\<close>: a step
  \<open>k\<close>, and the rest of the run from step \<open>k\<close> on, started after any clock reading.
\<close>

definition step_ok :: "pydict \<Rightarrow> nat \<Rightarrow> ('w, resource) prog \<Rightarrow> bool" where
  "step_ok cfg k m =
     (\<forall>reading w.
        case m (mutated cfg reading, w) of
          (r, evs, s) \<Rightarrow>
            fst s = mutated cfg (last_clock reading evs)
          \<and> orderly k evs
          \<and> (\<forall>pending. stamped (stamp cfg) pending evs)
          \<and> (case r of
               Inr h \<Rightarrow>
                 alive evs \<and> successes evs = 1
               \<and> created_vm evs = (if k = 6 then Some h else None)
             | Inl e \<Rightarrow> created_vm evs = None))"

definition tail_ok :: "pydict \<Rightarrow> nat \<Rightarrow> ('w, resource) prog \<Rightarrow> bool" where
  "tail_ok cfg k m =
     (\<forall>reading w.
        case m (mutated cfg reading, w) of
          (r, evs, s) \<Rightarrow>
            fst s = mutated cfg (last_clock reading evs)
          \<and> orderly k evs
          \<and> (\<forall>pending. stamped (stamp cfg) pending evs)
          \<and> created_vm evs = (case r of Inr vm \<Rightarrow> Some vm | Inl e \<Rightarrow> None))"

text \<open>How many requests of a list of events create a resource group.\<close>

definition rg_creations :: "event list \<Rightarrow> nat" where
  "rg_creations evs =
     length (filter (\<lambda>r. fst r = ResourceGroups_create_or_update) (requests evs))"

section \<open>Facts about dictionaries\<close>

lemma dict_get_update:
  "dict_get (AList.update k v d) k' dflt = (if k' = k then v else dict_get d k' dflt)"
  by (simp add: dict_get_def update_conv')

lemma default_config_fields:
  "dict_get default_config ''vm_name'' PNone = PStr ''azure-vm-prod''"
  "dict_get default_config ''resource_group'' PNone = PStr ''rg-azure-vm''"
  "dict_get default_config ''location'' PNone = PStr ''East US''"
  "dict_get default_config ''admin_username'' PNone = PStr ''azureuser''"
  "dict_get default_config ''admin_password'' PNone = PNone"
  by (simp_all add: default_config_def dict_get_def)

section \<open>Validation\<close>

lemma first_missing_required:
  "first_missing cfg required_fields =
     (if \<not> truthy (dict_get cfg ''vm_name'' PNone) then Some ''vm_name''
      else if \<not> truthy (dict_get cfg ''resource_group'' PNone) then Some ''resource_group''
      else if \<not> truthy (dict_get cfg ''location'' PNone) then Some ''location''
      else if \<not> truthy (dict_get cfg ''admin_username'' PNone) then Some ''admin_username''
      else None)"
  by (simp add: required_fields_def)

lemma validate_unfolded:
  "validate cfg =
     (if \<not> truthy (dict_get cfg ''vm_name'' PNone)
        then Inr (False, Campo_requerido_faltante ''vm_name'')
      else if \<not> truthy (dict_get cfg ''resource_group'' PNone)
        then Inr (False, Campo_requerido_faltante ''resource_group'')
      else if \<not> truthy (dict_get cfg ''location'' PNone)
        then Inr (False, Campo_requerido_faltante ''location'')
      else if \<not> truthy (dict_get cfg ''admin_username'' PNone)
        then Inr (False, Campo_requerido_faltante ''admin_username'')
      else (case vm_name_test (dict_get cfg ''vm_name'' PNone) of
              Inl e \<Rightarrow> Inl e
            | Inr ok \<Rightarrow> Inr (if ok then (True, Configuracion_validada)
                           else (False, Nombre_de_VM_invalido))))"
  by (auto simp: validate_def first_missing_required dict_get_def split: option.splits sum.splits)

lemma validate_frame:
  assumes "k \<notin> set required_fields"
  shows "validate (AList.update k v cfg) = validate cfg"
    and "validate (AList.delete k cfg) = validate cfg"
proof -
  from assms have ne: "k \<noteq> ''vm_name''" "k \<noteq> ''resource_group''" "k \<noteq> ''location''"
      "k \<noteq> ''admin_username''"
    by (auto simp: required_fields_def)
  have get_upd: "dict_get (AList.update k v cfg) f PNone = dict_get cfg f PNone" if "f \<noteq> k" for f
    using that by (simp add: dict_get_update)
  have get_del: "dict_get (AList.delete k cfg) f PNone = dict_get cfg f PNone" if "f \<noteq> k" for f
    using that by (simp add: dict_get_def)
  show "validate (AList.update k v cfg) = validate cfg"
    unfolding validate_unfolded using ne by (simp add: get_upd)
  show "validate (AList.delete k cfg) = validate cfg"
    unfolding validate_unfolded using ne by (simp add: get_del)
qed

lemma validate_default_config:
  "validate default_config = Inr (True, Configuracion_validada)"
  by (simp add: validate_unfolded default_config_fields vm_name_test_def vm_name_ok_def
      replace_del_def isalnum_def isalnum_char_def)

lemma isalnum_stripped:
  "isalnum (replace_del CHR ''_'' (replace_del CHR ''-'' s)) =
     (list_all (\<lambda>c. isalnum_char c \<or> c = CHR ''-'' \<or> c = CHR ''_'') s \<and>
      list_ex (\<lambda>c. c \<noteq> CHR ''-'' \<and> c \<noteq> CHR ''_'') s)"
  by (induction s)
     (auto simp: isalnum_def replace_del_def list_all_iff list_ex_iff filter_empty_conv)

lemma vm_name_test_string:
  "list_ex (\<lambda>c. c \<noteq> CHR ''-'' \<and> c \<noteq> CHR ''_'') s \<Longrightarrow>
     vm_name_test (PStr s) =
       Inr (1 \<le> length s \<and> length s \<le> 64 \<and>
            list_all (\<lambda>c. isalnum_char c \<or> c = CHR ''-'' \<or> c = CHR ''_'') s)"
  by (auto simp: vm_name_test_def vm_name_ok_def isalnum_stripped)

lemma vm_name_test_other:
  "vm_name_test (PBool b) = Inl TypeError"
  "vm_name_test (PInt i) = Inl TypeError"
  "xs \<noteq> [] \<Longrightarrow> vm_name_test (PList xs) =
     (if length xs \<le> 64 then Inl AttributeError else Inr False)"
  "kvs \<noteq> [] \<Longrightarrow> vm_name_test (PDict kvs) =
     (if length kvs \<le> 64 then Inl AttributeError else Inr False)"
  by (auto simp: vm_name_test_def Suc_le_eq)

text \<open>
  Claim C3, as amended. \<^verbatim>\<open>validate\<close> checks, in this order and with the first failure
  deciding the logged reason: that \<^verbatim>\<open>vm_name\<close>, \<^verbatim>\<open>resource_group\<close>, \<^verbatim>\<open>location\<close> and
  \<^verbatim>\<open>admin_username\<close> are each present and truthy; then the name test on \<^verbatim>\<open>vm_name\<close>. A
  name that is a string with at least one character other than the hyphen and the underscore
  passes the test exactly when it has 1 to 64 characters, each alphanumeric in the sense of
  \<^verbatim>\<open>str.isalnum\<close>, a hyphen or an underscore; the configuration is then accepted, and
  rejected otherwise. On a name that is no string the test raises \<^verbatim>\<open>TypeError\<close> for a
  number or a boolean, raises \<^verbatim>\<open>AttributeError\<close> for a list or a dictionary of at most 64
  entries, and rejects a longer one. Nothing else is examined: setting or removing
  \<^verbatim>\<open>admin_password\<close>, and setting the \<^verbatim>\<open>network\<close> section (the CIDR fields) or the
  \<^verbatim>\<open>security\<close> section (the SSH port) to anything, leaves the verdict as it was.
\<close>

theorem validate_checks_in_order:
  "(\<not> truthy (dict_get cfg ''vm_name'' PNone) \<longrightarrow>
      validate cfg = Inr (False, Campo_requerido_faltante ''vm_name''))
   \<and> (truthy (dict_get cfg ''vm_name'' PNone)
      \<and> \<not> truthy (dict_get cfg ''resource_group'' PNone) \<longrightarrow>
      validate cfg = Inr (False, Campo_requerido_faltante ''resource_group''))
   \<and> (truthy (dict_get cfg ''vm_name'' PNone)
      \<and> truthy (dict_get cfg ''resource_group'' PNone)
      \<and> \<not> truthy (dict_get cfg ''location'' PNone) \<longrightarrow>
      validate cfg = Inr (False, Campo_requerido_faltante ''location''))
   \<and> (truthy (dict_get cfg ''vm_name'' PNone)
      \<and> truthy (dict_get cfg ''resource_group'' PNone)
      \<and> truthy (dict_get cfg ''location'' PNone)
      \<and> \<not> truthy (dict_get cfg ''admin_username'' PNone) \<longrightarrow>
      validate cfg = Inr (False, Campo_requerido_faltante ''admin_username''))
   \<and> (truthy (dict_get cfg ''vm_name'' PNone)
      \<and> truthy (dict_get cfg ''resource_group'' PNone)
      \<and> truthy (dict_get cfg ''location'' PNone)
      \<and> truthy (dict_get cfg ''admin_username'' PNone) \<longrightarrow>
        (\<forall>s. dict_get cfg ''vm_name'' PNone = PStr s
              \<and> list_ex (\<lambda>c. c \<noteq> CHR ''-'' \<and> c \<noteq> CHR ''_'') s \<longrightarrow>
              validate cfg =
                Inr (if 1 \<le> length s \<and> length s \<le> 64 \<and>
                        list_all (\<lambda>c. isalnum_char c \<or> c = CHR ''-'' \<or> c = CHR ''_'') s
                     then (True, Configuracion_validada)
                     else (False, Nombre_de_VM_invalido)))
      \<and> (\<forall>b. dict_get cfg ''vm_name'' PNone = PBool b \<longrightarrow> validate cfg = Inl TypeError)
      \<and> (\<forall>i. dict_get cfg ''vm_name'' PNone = PInt i \<longrightarrow> validate cfg = Inl TypeError)
      \<and> (\<forall>xs. dict_get cfg ''vm_name'' PNone = PList xs \<longrightarrow>
              validate cfg = (if length xs \<le> 64 then Inl AttributeError
                              else Inr (False, Nombre_de_VM_invalido)))
      \<and> (\<forall>kvs. dict_get cfg ''vm_name'' PNone = PDict kvs \<longrightarrow>
              validate cfg = (if length kvs \<le> 64 then Inl AttributeError
                              else Inr (False, Nombre_de_VM_invalido))))
   \<and> validate (AList.update ''admin_password'' v cfg) = validate cfg
   \<and> validate (AList.delete ''admin_password'' cfg) = validate cfg
   \<and> validate (AList.update ''network'' v cfg) = validate cfg
   \<and> validate (AList.update ''security'' v cfg) = validate cfg"
proof -
  have name: "validate cfg =
      (case vm_name_test (dict_get cfg ''vm_name'' PNone) of
         Inl e \<Rightarrow> Inl e
       | Inr ok \<Rightarrow> Inr (if ok then (True, Configuracion_validada)
                      else (False, Nombre_de_VM_invalido)))"
    if "truthy (dict_get cfg ''vm_name'' PNone)" "truthy (dict_get cfg ''resource_group'' PNone)"
      "truthy (dict_get cfg ''location'' PNone)" "truthy (dict_get cfg ''admin_username'' PNone)"
    using that by (simp add: validate_unfolded)
  have fields:
    "\<not> truthy (dict_get cfg ''vm_name'' PNone) \<longrightarrow>
       validate cfg = Inr (False, Campo_requerido_faltante ''vm_name'')"
    "truthy (dict_get cfg ''vm_name'' PNone)
       \<and> \<not> truthy (dict_get cfg ''resource_group'' PNone) \<longrightarrow>
       validate cfg = Inr (False, Campo_requerido_faltante ''resource_group'')"
    "truthy (dict_get cfg ''vm_name'' PNone)
       \<and> truthy (dict_get cfg ''resource_group'' PNone)
       \<and> \<not> truthy (dict_get cfg ''location'' PNone) \<longrightarrow>
       validate cfg = Inr (False, Campo_requerido_faltante ''location'')"
    "truthy (dict_get cfg ''vm_name'' PNone)
       \<and> truthy (dict_get cfg ''resource_group'' PNone)
       \<and> truthy (dict_get cfg ''location'' PNone)
       \<and> \<not> truthy (dict_get cfg ''admin_username'' PNone) \<longrightarrow>
       validate cfg = Inr (False, Campo_requerido_faltante ''admin_username'')"
    by (simp_all add: validate_unfolded)
  have frame:
    "validate (AList.update ''admin_password'' v cfg) = validate cfg"
    "validate (AList.delete ''admin_password'' cfg) = validate cfg"
    "validate (AList.update ''network'' v cfg) = validate cfg"
    "validate (AList.update ''security'' v cfg) = validate cfg"
    by (simp_all add: validate_frame required_fields_def)
  have tests:
    "(\<forall>s. dict_get cfg ''vm_name'' PNone = PStr s
              \<and> list_ex (\<lambda>c. c \<noteq> CHR ''-'' \<and> c \<noteq> CHR ''_'') s \<longrightarrow>
              validate cfg =
                Inr (if 1 \<le> length s \<and> length s \<le> 64 \<and>
                        list_all (\<lambda>c. isalnum_char c \<or> c = CHR ''-'' \<or> c = CHR ''_'') s
                     then (True, Configuracion_validada)
                     else (False, Nombre_de_VM_invalido)))
      \<and> (\<forall>b. dict_get cfg ''vm_name'' PNone = PBool b \<longrightarrow> validate cfg = Inl TypeError)
      \<and> (\<forall>i. dict_get cfg ''vm_name'' PNone = PInt i \<longrightarrow> validate cfg = Inl TypeError)
      \<and> (\<forall>xs. dict_get cfg ''vm_name'' PNone = PList xs \<longrightarrow>
              validate cfg = (if length xs \<le> 64 then Inl AttributeError
                              else Inr (False, Nombre_de_VM_invalido)))
      \<and> (\<forall>kvs. dict_get cfg ''vm_name'' PNone = PDict kvs \<longrightarrow>
              validate cfg = (if length kvs \<le> 64 then Inl AttributeError
                              else Inr (False, Nombre_de_VM_invalido)))"
    if t: "truthy (dict_get cfg ''vm_name'' PNone)"
      "truthy (dict_get cfg ''resource_group'' PNone)"
      "truthy (dict_get cfg ''location'' PNone)" "truthy (dict_get cfg ''admin_username'' PNone)"
    using t(1) by (auto simp: name [OF t] vm_name_test_string vm_name_test_other)
  from fields tests frame show ?thesis by blast
qed

text \<open>The theorem at the default configuration with its resource group emptied: the
  second check fails first, whatever the password is; and at the default configuration,
  whose name passes the test.\<close>

theorem validate_checks_in_order_witness:
  "truthy (dict_get (AList.update ''resource_group'' (PStr []) default_config) ''vm_name'' PNone)
   \<and> \<not> truthy (dict_get (AList.update ''resource_group'' (PStr []) default_config)
                  ''resource_group'' PNone)
   \<and> validate (AList.update ''admin_password'' (PStr ''Str0ngPass!'')
       (AList.update ''resource_group'' (PStr []) default_config)) =
       Inr (False, Campo_requerido_faltante ''resource_group'')
   \<and> dict_get default_config ''vm_name'' PNone = PStr ''azure-vm-prod''
   \<and> list_ex (\<lambda>c. c \<noteq> CHR ''-'' \<and> c \<noteq> CHR ''_'') ''azure-vm-prod''
   \<and> validate default_config = Inr (True, Configuracion_validada)"
  using validate_checks_in_order
    [of "AList.update ''resource_group'' (PStr []) default_config" "PStr ''Str0ngPass!''"]
    validate_checks_in_order [of default_config]
  by (simp add: dict_get_update default_config_fields isalnum_char_def)

text \<open>Claim C3 as stated fails: the default configuration has no \<^verbatim>\<open>admin_password\<close> and is
  accepted; and a configuration whose SSH port is 0 is accepted.\<close>

theorem validate_rules_counterexample:
  "(validate default_config = Inr (True, Configuracion_validada)
      \<and> \<not> spec_required_present default_config)
   \<and> (validate (AList.update ''security''
          (PDict [(''ssh_port'', PInt 0), (''allowed_ssh_sources'', PList [PStr ''*''])])
          (AList.update ''admin_password'' (PStr ''Str0ngPass!'') default_config))
        = Inr (True, Configuracion_validada)
      \<and> \<not> spec_ssh_port_in_range (AList.update ''security''
          (PDict [(''ssh_port'', PInt 0), (''allowed_ssh_sources'', PList [PStr ''*''])])
          (AList.update ''admin_password'' (PStr ''Str0ngPass!'') default_config)))"
  by (simp add: validate_frame required_fields_def validate_default_config
      spec_required_present_def default_config_fields spec_ssh_port_in_range_def update_conv')

lemma validate_name:
  assumes "truthy (dict_get cfg ''resource_group'' PNone)"
      and "truthy (dict_get cfg ''location'' PNone)"
      and "truthy (dict_get cfg ''admin_username'' PNone)"
  shows "validate (AList.update ''vm_name'' (PStr s) cfg) =
           Inr (if vm_name_ok s then (True, Configuracion_validada)
                else if s = [] then (False, Campo_requerido_faltante ''vm_name'')
                else (False, Nombre_de_VM_invalido))"
  using assms
  by (auto simp: validate_unfolded dict_get_update vm_name_test_def vm_name_ok_def)

text \<open>
  Claim C8, as amended. In a configuration whose other required fields are present, a
  string \<open>s\<close> with at least one character other than the hyphen and the underscore is
  accepted as \<^verbatim>\<open>vm_name\<close> exactly when it has 1 to 64 characters and each is alphanumeric
  in the sense of \<^verbatim>\<open>str.isalnum\<close> (which admits letters and digits outside ASCII), a hyphen
  or an underscore.
\<close>

theorem vm_name_accepted_iff:
  assumes "truthy (dict_get cfg ''resource_group'' PNone)"
      and "truthy (dict_get cfg ''location'' PNone)"
      and "truthy (dict_get cfg ''admin_username'' PNone)"
      and "list_ex (\<lambda>c. c \<noteq> CHR ''-'' \<and> c \<noteq> CHR ''_'') s"
  shows "(validate (AList.update ''vm_name'' (PStr s) cfg) = Inr (True, Configuracion_validada)) =
         (1 \<le> length s \<and> length s \<le> 64 \<and>
          list_all (\<lambda>c. isalnum_char c \<or> c = CHR ''-'' \<or> c = CHR ''_'') s)"
  using assms(4) by (simp add: validate_name [OF assms(1-3)] vm_name_ok_def isalnum_stripped)

theorem vm_name_accepted_iff_witness:
  "list_ex (\<lambda>c. c \<noteq> CHR ''-'' \<and> c \<noteq> CHR ''_'') ''web-01_a''
   \<and> validate (AList.update ''vm_name'' (PStr ''web-01_a'') default_config) =
       Inr (True, Configuracion_validada)"
  using vm_name_accepted_iff [of default_config "''web-01_a''"]
  by (simp add: default_config_fields isalnum_char_def)

text \<open>Claim C8 as stated fails both ways: the one-letter name U+00E9 is no ASCII name and
  is accepted, and the name \<^verbatim>\<open>-\<close> satisfies the rule of the specification and is
  rejected, the name stripped of hyphens being empty.\<close>

theorem vm_name_counterexample:
  "(validate (AList.update ''vm_name'' (PStr [CHR 0xE9]) default_config) =
      Inr (True, Configuracion_validada)
     \<and> \<not> spec_vm_name [CHR 0xE9])
   \<and> (validate (AList.update ''vm_name'' (PStr ''-'') default_config) =
      Inr (False, Nombre_de_VM_invalido)
     \<and> spec_vm_name ''-'')"
  by (simp add: validate_name default_config_fields vm_name_ok_def isalnum_stripped
      isalnum_char_def spec_vm_name_def ascii_name_char_def)

section \<open>Running the steps\<close>

lemma add_tags_run:
  "add_tags az params (cfg, w) =
     (case clock az w of (t, w') \<Rightarrow>
        (case config_get cfg ''tags'' (PDict []) of
           PDict tags \<Rightarrow>
             (Inr (AList.update ''tags'' (PDict (AList.update ''CreatedAt'' (PStr t) tags)) params),
              [Clock t],
              (if map_of cfg ''tags'' = None then cfg
               else AList.update ''tags'' (PDict (AList.update ''CreatedAt'' (PStr t) tags)) cfg,
               w'))
         | _ \<Rightarrow> (Inl TypeError, [Clock t], (cfg, w'))))"
  by (simp add: add_tags_def bind_def get_config_def now_isoformat_def put_config_def
      return_def raise_def Let_def split: prod.splits pyval.splits)

lemma tagged_call_run:
  "bind (add_tags az params) (\<lambda>p. call az op (f p)) (cfg, w) =
     (case clock az w of (t, w1) \<Rightarrow>
        (case config_get cfg ''tags'' (PDict []) of
           PDict tags \<Rightarrow>
             (case request az op
                     (f (AList.update ''tags'' (PDict (AList.update ''CreatedAt'' (PStr t) tags)) params))
                     w1 of
                (r, w2) \<Rightarrow>
                  (r,
                   [Clock t,
                    Remote op
                      (f (AList.update ''tags'' (PDict (AList.update ''CreatedAt'' (PStr t) tags)) params))
                      r],
                   (if map_of cfg ''tags'' = None then cfg
                    else AList.update ''tags'' (PDict (AList.update ''CreatedAt'' (PStr t) tags)) cfg,
                    w2)))
         | _ \<Rightarrow> (Inl TypeError, [Clock t], (cfg, w1))))"
  by (simp add: bind_def add_tags_run call_def split: prod.splits pyval.splits)

lemma length_ssh_rules: "length (ssh_rules i p sources) = length sources"
  by (induction sources arbitrary: i) simp_all

lemma nth_ssh_rules:
  "j < length sources \<Longrightarrow> ssh_rules i p sources ! j = ssh_rule (i + j) p (sources ! j)"
proof (induction sources arbitrary: i j)
  case Nil
  then show ?case by simp
next
  case (Cons s sources)
  show ?case
  proof (cases j)
    case 0
    then show ?thesis by simp
  next
    case (Suc j')
    with Cons.prems have "j' < length sources" by simp
    from Cons.IH [OF this, of "Suc i"] Suc show ?thesis by simp
  qed
qed

lemma ssh_rule_fields:
  "rule_field (ssh_rule i p s) ''access'' = PStr ''Allow''"
  "rule_field (ssh_rule i p s) ''direction'' = PStr ''Inbound''"
  "rule_field (ssh_rule i p s) ''protocol'' = PStr ''Tcp''"
  "rule_field (ssh_rule i p s) ''source_address_prefix'' = s"
  "rule_field (ssh_rule i p s) ''destination_port_range'' = PStr (py_str p)"
  "rule_field (ssh_rule i p s) ''priority'' = PInt (1000 + int i)"
  by (simp_all add: rule_field_def ssh_rule_def dict_get_def)

lemma deny_all_inbound_fields:
  "rule_field deny_all_inbound ''access'' = PStr ''Deny''"
  "rule_field deny_all_inbound ''direction'' = PStr ''Inbound''"
  "rule_field deny_all_inbound ''protocol'' = PStr ''*''"
  "rule_field deny_all_inbound ''priority'' = PInt 4096"
  by (simp_all add: rule_field_def deny_all_inbound_def dict_get_def)

lemma filter_allow_ssh_rules:
  "filter (\<lambda>r. rule_field r ''access'' = PStr ''Allow'') (ssh_rules i p sources) = ssh_rules i p sources"
  by (induction sources arbitrary: i) (simp_all add: ssh_rule_fields)

lemma bind_lift:
  "bind (lift r) f s = (case r of Inl e \<Rightarrow> (Inl e, [], s) | Inr x \<Rightarrow> f x s)"
  by (simp add: bind_def lift_def split: sum.splits prod.splits)

lemma bind_get_config: "bind get_config f s = f (fst s) s"
  by (simp add: bind_def get_config_def split: prod.splits)

lemma bind_return: "bind (return x) f s = f x s"
  by (simp add: bind_def return_def split: prod.splits)

lemma nsg_requests:
  "security_rules cfg = Inr rules \<Longrightarrow>
   requests (events (create_network_security_group az rg nsg loc (cfg, w))) =
     (if tags_usable cfg
      then [(NetworkSecurityGroups_create_or_update,
             [rg, nsg,
              PDict (AList.update ''tags''
                (PDict (AList.update ''CreatedAt'' (PStr (fst (clock az w)))
                   (case config_get cfg ''tags'' (PDict []) of PDict tags \<Rightarrow> tags | _ \<Rightarrow> [])))
                [(''location'', loc), (''security_rules'', PList rules)])])]
      else [])"
  by (simp add: create_network_security_group_def bind_get_config bind_lift tagged_call_run
      events_def tags_usable_def split: prod.splits pyval.splits)

section \<open>The security rules\<close>

lemma str_int_1: "str_int 1 = ''1''"
  by (simp add: str_int_def str_nat.simps digit_char_def)

lemma py_str_22: "py_str (PInt 22) = ''22''"
  by (simp add: py_str_def str_int_def str_nat.simps digit_char_def)

lemma params_of_3: "params_of [a, b, PDict d] = d"
  by (simp add: params_of_def)

lemma security_rules_dict:
  assumes "config_get cfg ''security'' (PDict []) = PDict security"
  shows "security_rules cfg =
     (case py_iter (dict_get security ''allowed_ssh_sources'' (PList [PStr ''*''])) of
        Inl e \<Rightarrow> Inl e
      | Inr sources \<Rightarrow>
          Inr (ssh_rules 0 (dict_get security ''ssh_port'' (PInt 22)) sources @ [deny_all_inbound]))"
  using assms by (simp add: security_rules_def)

lemma nsg_requests_stamped:
  "security_rules cfg = Inr rules \<Longrightarrow>
   requests (events (create_network_security_group az rg nsg loc (cfg, w))) =
     (if tags_usable cfg
      then [(NetworkSecurityGroups_create_or_update,
             [rg, nsg,
              PDict [(''location'', loc), (''security_rules'', PList rules),
                     (''tags'', PDict (stamp cfg (fst (clock az w))))]])]
      else [])"
  by (simp add: nsg_requests stamp_def configured_tags_def)

text \<open>
  Claim C1. When the security section gives a list of \<open>n\<close> sources and a port \<open>p\<close>, the rule
  list has \<open>n + 1\<close> rules, of which exactly \<open>n\<close> allow: rule \<open>i\<close> (from 0) is
  Allow, Inbound, Tcp, with the \<open>i\<close>-th source as source address prefix, \<^verbatim>\<open>str(p)\<close> as
  destination port range and priority \<open>1000 + i\<close>; the last rule is Deny, Inbound, protocol
  \<^verbatim>\<open>*\<close>, priority 4096. The NetworkSecurityGroup step sends exactly one request, the
  creation of the group with the location, exactly this list as \<^verbatim>\<open>security_rules\<close>, and the
  tags; it sends none only when the configured tags are no dictionary, \<^verbatim>\<open>_add_tags\<close> then
  raising after the list is built.
\<close>

theorem security_rules_built:
  assumes "config_get cfg ''security'' (PDict []) = PDict security"
      and "map_of security ''allowed_ssh_sources'' = Some (PList sources)"
      and "map_of security ''ssh_port'' = Some p"
  shows "\<exists>rules. security_rules cfg = Inr rules
     \<and> length rules = length sources + 1
     \<and> length (filter (\<lambda>r. rule_field r ''access'' = PStr ''Allow'') rules) = length sources
     \<and> (\<forall>i<length sources.
          rule_field (rules ! i) ''access'' = PStr ''Allow''
        \<and> rule_field (rules ! i) ''direction'' = PStr ''Inbound''
        \<and> rule_field (rules ! i) ''protocol'' = PStr ''Tcp''
        \<and> rule_field (rules ! i) ''source_address_prefix'' = sources ! i
        \<and> rule_field (rules ! i) ''destination_port_range'' = PStr (py_str p)
        \<and> rule_field (rules ! i) ''priority'' = PInt (1000 + int i))
     \<and> rule_field (rules ! length sources) ''access'' = PStr ''Deny''
     \<and> rule_field (rules ! length sources) ''direction'' = PStr ''Inbound''
     \<and> rule_field (rules ! length sources) ''protocol'' = PStr ''*''
     \<and> rule_field (rules ! length sources) ''priority'' = PInt 4096
     \<and> requests (events (create_network_security_group az rg nsg loc (cfg, w))) =
         (if tags_usable cfg
          then [(NetworkSecurityGroups_create_or_update,
                 [rg, nsg,
                  PDict [(''location'', loc), (''security_rules'', PList rules),
                         (''tags'', PDict (stamp cfg (fst (clock az w))))]])]
          else [])"
proof -
  let ?rules = "ssh_rules 0 p sources @ [deny_all_inbound]"
  have built: "security_rules cfg = Inr ?rules"
    using assms by (simp add: security_rules_dict dict_get_def)
  have allow: "filter (\<lambda>r. rule_field r ''access'' = PStr ''Allow'') ?rules = ssh_rules 0 p sources"
    by (simp add: filter_allow_ssh_rules deny_all_inbound_fields)
  have nth: "?rules ! i = ssh_rule i p (sources ! i)" if "i < length sources" for i
    using that by (simp add: nth_append length_ssh_rules nth_ssh_rules)
  have last: "?rules ! length sources = deny_all_inbound"
    by (simp add: nth_append length_ssh_rules)
  note sent = nsg_requests_stamped [OF built, of az rg nsg loc w]
  show ?thesis
    apply (rule exI [of _ ?rules])
    apply (simp only: built allow last sent deny_all_inbound_fields)
    apply (simp add: length_ssh_rules nth ssh_rule_fields)
    done
qed

text \<open>
  The scenario of the specification: one source \<^verbatim>\<open>10.0.0.0/8\<close> and port 22 give \<^verbatim>\<open>SSH_1\<close>
  at priority 1000 and the deny rule at 4096, and the step sends them in its one request.
\<close>

theorem security_rules_built_witness:
  "\<exists>rules. security_rules web01_config = Inr rules
     \<and> length rules = 2
     \<and> rule_field (rules ! 0) ''access'' = PStr ''Allow''
     \<and> rule_field (rules ! 0) ''source_address_prefix'' = PStr ''10.0.0.0/8''
     \<and> rule_field (rules ! 0) ''destination_port_range'' = PStr ''22''
     \<and> rule_field (rules ! 0) ''priority'' = PInt 1000
     \<and> rule_field (rules ! 1) ''access'' = PStr ''Deny''
     \<and> rule_field (rules ! 1) ''priority'' = PInt 4096
     \<and> requests (events (create_network_security_group (sim_azure []) (PStr ''rg-web'')
                            (PStr ''nsg-azure-vm'') (PStr ''East US'')
                            (web01_config, ([], ''t'')))) =
         [(NetworkSecurityGroups_create_or_update,
           [PStr ''rg-web'', PStr ''nsg-azure-vm'',
            PDict [(''location'', PStr ''East US''), (''security_rules'', PList rules),
                   (''tags'', PDict [(''Environment'', PStr ''Production''),
                                     (''CreatedBy'', PStr ''AzureVMCreator''),
                                     (''Project'', PStr ''Infrastructure''),
                                     (''CreatedAt'', PStr ''t'')])]])]"
proof -
  have sec: "config_get web01_config ''security'' (PDict []) =
      PDict [(''ssh_port'', PInt 22), (''allowed_ssh_sources'', PList [PStr ''10.0.0.0/8''])]"
    by (simp add: web01_config_def config_get_def dict_get_update)
  have tags: "tags_usable web01_config"
    "stamp web01_config ''t'' =
       [(''Environment'', PStr ''Production''),
        (''CreatedBy'', PStr ''AzureVMCreator''),
        (''Project'', PStr ''Infrastructure''),
        (''CreatedAt'', PStr ''t'')]"
    by (simp_all add: tags_usable_def stamp_def configured_tags_def config_get_def dict_get_def
        web01_config_def default_config_def)
  from security_rules_built [OF sec, of "[PStr ''10.0.0.0/8'']" "PInt 22" "sim_azure []"
      "PStr ''rg-web''" "PStr ''nsg-azure-vm''" "PStr ''East US''" "([], ''t'')"]
  show ?thesis
    by (auto simp: py_str_22 All_less_Suc tags sim_azure_def)
qed

text \<open>
  Claim C10. Without a security section, or with one that has neither key, the rule list is
  the rule Allow, Inbound, Tcp from \<^verbatim>\<open>*\<close> to port \<^verbatim>\<open>22\<close> at priority 1000, then the
  deny rule. With only \<^verbatim>\<open>allowed_ssh_sources\<close> missing, the one allow rule is from \<^verbatim>\<open>*\<close> to
  the configured port; with only \<^verbatim>\<open>ssh_port\<close> missing, every allow rule is to port \<^verbatim>\<open>22\<close>.
\<close>

theorem default_security_rules:
  assumes "map_of cfg ''security'' = None \<and> security = []
           \<or> map_of cfg ''security'' = Some (PDict security)"
  shows "(map_of security ''ssh_port'' = None \<and> map_of security ''allowed_ssh_sources'' = None \<longrightarrow>
            security_rules cfg =
              Inr [PDict
                     [(''name'', PStr ''SSH_1''),
                      (''protocol'', PStr ''Tcp''),
                      (''source_port_range'', PStr ''*''),
                      (''destination_port_range'', PStr ''22''),
                      (''source_address_prefix'', PStr ''*''),
                      (''destination_address_prefix'', PStr ''*''),
                      (''access'', PStr ''Allow''),
                      (''priority'', PInt 1000),
                      (''direction'', PStr ''Inbound'')],
                   deny_all_inbound])
       \<and> (map_of security ''allowed_ssh_sources'' = None \<longrightarrow>
            security_rules cfg =
              Inr [ssh_rule 0 (dict_get security ''ssh_port'' (PInt 22)) (PStr ''*''),
                   deny_all_inbound])
       \<and> (map_of security ''ssh_port'' = None \<longrightarrow>
            (case py_iter (dict_get security ''allowed_ssh_sources'' (PList [PStr ''*''])) of
               Inl e \<Rightarrow> security_rules cfg = Inl e
             | Inr sources \<Rightarrow>
                 security_rules cfg = Inr (ssh_rules 0 (PInt 22) sources @ [deny_all_inbound])
               \<and> list_all (\<lambda>r. rule_field r ''destination_port_range'' = PStr ''22'')
                    (ssh_rules 0 (PInt 22) sources)))"
proof -
  from assms have sec: "config_get cfg ''security'' (PDict []) = PDict security"
    by (auto simp: config_get_def dict_get_def)
  have ports: "list_all (\<lambda>r. rule_field r ''destination_port_range'' = PStr ''22'')
                 (ssh_rules i (PInt 22) sources)" for i sources
    by (induction sources arbitrary: i) (simp_all add: ssh_rule_fields py_str_22)
  show ?thesis
    by (auto simp: security_rules_dict [OF sec] dict_get_def ssh_rule_def str_int_1 py_str_22 ports
        split: sum.splits)
qed

theorem default_security_rules_witness:
  "security_rules (AList.delete ''security'' default_config) =
     Inr [PDict
            [(''name'', PStr ''SSH_1''),
             (''protocol'', PStr ''Tcp''),
             (''source_port_range'', PStr ''*''),
             (''destination_port_range'', PStr ''22''),
             (''source_address_prefix'', PStr ''*''),
             (''destination_address_prefix'', PStr ''*''),
             (''access'', PStr ''Allow''),
             (''priority'', PInt 1000),
             (''direction'', PStr ''Inbound'')],
          deny_all_inbound]"
  using default_security_rules [of "AList.delete ''security'' default_config" "[]"]
  by (simp add: delete_conv')

text \<open>
  Claim C9, as amended. A configuration whose \<^verbatim>\<open>allowed_ssh_sources\<close> is the empty list is
  not rejected for it: validation gives the verdict it gives with any other security
  section, so it accepts the configuration when the four required fields are present and
  the name passes its test; and the rule list then holds the deny rule alone.
\<close>

theorem empty_sources_accepted:
  assumes "config_get cfg ''security'' (PDict []) = PDict security"
      and "map_of security ''allowed_ssh_sources'' = Some (PList [])"
  shows "validate (AList.update ''security'' v cfg) = validate cfg
       \<and> security_rules cfg = Inr [deny_all_inbound]
       \<and> (truthy (dict_get cfg ''resource_group'' PNone)
          \<and> truthy (dict_get cfg ''location'' PNone)
          \<and> truthy (dict_get cfg ''admin_username'' PNone)
          \<and> (\<exists>s. dict_get cfg ''vm_name'' PNone = PStr s \<and> vm_name_ok s)
          \<longrightarrow> validate cfg = Inr (True, Configuracion_validada))"
proof -
  have frame: "validate (AList.update ''security'' v cfg) = validate cfg"
    by (simp add: validate_frame required_fields_def)
  have rules: "security_rules cfg = Inr [deny_all_inbound]"
    using assms(2) by (simp add: security_rules_dict [OF assms(1)] dict_get_def)
  have accepted: "validate cfg = Inr (True, Configuracion_validada)"
    if "truthy (dict_get cfg ''resource_group'' PNone)"
      and "truthy (dict_get cfg ''location'' PNone)"
      and "truthy (dict_get cfg ''admin_username'' PNone)"
      and "dict_get cfg ''vm_name'' PNone = PStr s" and "vm_name_ok s" for s
  proof -
    from that(5) have "s \<noteq> []" by (auto simp: vm_name_ok_def)
    with that show ?thesis
      by (simp add: validate_unfolded vm_name_test_def vm_name_ok_def)
  qed
  from frame rules accepted show ?thesis by blast
qed

text \<open>
  Claim C9 as stated fails: the default configuration with a password and an empty list of
  sources is accepted.
\<close>

theorem empty_sources_counterexample:
  "validate (AList.update ''security''
       (PDict [(''ssh_port'', PInt 22), (''allowed_ssh_sources'', PList [])])
       (AList.update ''admin_password'' (PStr ''Str0ngPass!'') default_config))
     = Inr (True, Configuracion_validada)"
  by (simp add: validate_frame required_fields_def validate_default_config)

theorem empty_sources_accepted_witness:
  "validate (AList.update ''security''
       (PDict [(''ssh_port'', PInt 22), (''allowed_ssh_sources'', PList [])]) default_config)
     = Inr (True, Configuracion_validada)
   \<and> security_rules (AList.update ''security''
       (PDict [(''ssh_port'', PInt 22), (''allowed_ssh_sources'', PList [])]) default_config)
     = Inr [deny_all_inbound]"
  using empty_sources_accepted
    [of "AList.update ''security''
       (PDict [(''ssh_port'', PInt 22), (''allowed_ssh_sources'', PList [])]) default_config"
      "[(''ssh_port'', PInt 22), (''allowed_ssh_sources'', PList [])]" PNone]
  by (simp add: config_get_def dict_get_update default_config_fields vm_name_ok_def
      replace_del_def isalnum_def isalnum_char_def)

section \<open>The order, the tags and the outcome of a run\<close>

lemma orderly_append:
  "orderly k A \<Longrightarrow> alive A \<Longrightarrow> orderly (k + successes A) B \<Longrightarrow> orderly k (A @ B)"
proof (induction A arbitrary: k)
  case Nil
  then show ?case by simp
next
  case (Cons ev A)
  show ?case
  proof (cases ev)
    case (Clock t)
    with Cons show ?thesis by simp
  next
    case (Remote op args r)
    with Cons.prems Cons.IH [of "Suc k"] Cons.IH [of k] show ?thesis
      by (cases r) (auto split: if_splits)
  qed
qed

lemma stamped_append:
  "stamped T pending A \<Longrightarrow> (\<And>p. stamped T p B) \<Longrightarrow> stamped T pending (A @ B)"
proof (induction A arbitrary: pending)
  case Nil
  then show ?case by simp
next
  case (Cons ev A)
  then show ?case by (cases ev) auto
qed

lemma created_vm_append:
  "created_vm (A @ B) = (case created_vm A of Some h \<Rightarrow> Some h | None \<Rightarrow> created_vm B)"
proof (induction A)
  case Nil
  then show ?case by simp
next
  case (Cons ev A)
  then show ?case by (cases ev) (auto split: sum.splits)
qed

lemma last_clock_append: "last_clock before (A @ B) = last_clock (last_clock before A) B"
proof (induction A arbitrary: before)
  case Nil
  then show ?case by simp
next
  case (Cons ev A)
  then show ?case by (cases ev) auto
qed

lemma tail_bind_step:
  assumes step: "step_ok cfg k m"
      and tail: "\<And>x. tail_ok cfg (Suc k) (f x)"
      and k: "k < 6"
  shows "tail_ok cfg k (bind m f)"
  unfolding tail_ok_def
proof (intro allI)
  fix reading w
  obtain r A s where m: "m (mutated cfg reading, w) = (r, A, s)"
    by (cases "m (mutated cfg reading, w)") auto
  from step [unfolded step_ok_def, rule_format, of reading w] m
  have s: "fst s = mutated cfg (last_clock reading A)"
    and oA: "orderly k A" and tA: "\<And>p. stamped (stamp cfg) p A"
    and rA: "case r of Inr h \<Rightarrow> alive A \<and> successes A = 1 \<and> created_vm A = None
               | Inl e \<Rightarrow> created_vm A = None"
    using k by (auto split: sum.splits)
  show "case bind m f (mutated cfg reading, w) of
          (r, evs, s) \<Rightarrow>
            fst s = mutated cfg (last_clock reading evs)
          \<and> orderly k evs
          \<and> (\<forall>pending. stamped (stamp cfg) pending evs)
          \<and> created_vm evs = (case r of Inr vm \<Rightarrow> Some vm | Inl e \<Rightarrow> None)"
  proof (cases r)
    case (Inl e)
    with m s oA tA rA show ?thesis by (simp add: bind_def)
  next
    case (Inr x)
    obtain r' B s' where fx: "f x s = (r', B, s')"
      by (cases "f x s") auto
    have s_eq: "s = (mutated cfg (last_clock reading A), snd s)"
      using s by (cases s) simp
    from tail [of x, unfolded tail_ok_def, rule_format, of "last_clock reading A" "snd s"] fx s_eq
    have s': "fst s' = mutated cfg (last_clock (last_clock reading A) B)"
      and oB: "orderly (Suc k) B" and tB: "\<And>p. stamped (stamp cfg) p B"
      and vB: "created_vm B = (case r' of Inr vm \<Rightarrow> Some vm | Inl e \<Rightarrow> None)"
      by auto
    from rA Inr have al: "alive A" and su: "successes A = 1" and vA: "created_vm A = None"
      by auto
    have "orderly k (A @ B)"
      using oA al oB su by (intro orderly_append) simp_all
    moreover have "stamped (stamp cfg) p (A @ B)" for p
      using tA tB by (intro stamped_append)
    ultimately show ?thesis
      using m Inr fx s' vA vB
      by (simp add: bind_def last_clock_append created_vm_append)
  qed
qed

lemma tail_bind_lift:
  assumes "\<And>x. tail_ok cfg k (f x)"
  shows "tail_ok cfg k (bind (lift r) f)"
proof (cases r)
  case (Inl e)
  then show ?thesis by (simp add: tail_ok_def bind_lift)
next
  case (Inr x)
  with assms [of x] show ?thesis by (simp add: tail_ok_def bind_lift)
qed

lemma tail_bind_get_config:
  assumes "\<And>c. tail_ok cfg k (f c)"
  shows "tail_ok cfg k (bind get_config f)"
  using assms by (simp add: tail_ok_def bind_get_config)

lemma configured_tags_cases:
  "map_of cfg ''tags'' = None \<Longrightarrow> configured_tags cfg = []"
  "map_of cfg ''tags'' = Some (PDict tags) \<Longrightarrow> configured_tags cfg = tags"
  by (simp_all add: configured_tags_def config_get_def dict_get_def)

lemma add_tags_mutated:
  "add_tags az params (mutated cfg reading, w) =
     (case clock az w of (t, w') \<Rightarrow>
        (if tags_usable cfg
         then Inr (AList.update ''tags'' (PDict (stamp cfg t)) params)
         else Inl TypeError,
         [Clock t], (mutated cfg (Some t), w')))"
proof (cases "map_of cfg ''tags''")
  case None
  then show ?thesis
    by (cases reading)
       (simp_all add: add_tags_run mutated_def tags_usable_def config_get_def dict_get_def
          stamp_def configured_tags_cases split: prod.splits)
next
  case (Some v)
  show ?thesis
  proof (cases v)
    case (PDict tags)
    with Some show ?thesis
      by (cases reading)
         (simp_all add: add_tags_run mutated_def tags_usable_def config_get_def dict_get_def
            stamp_def configured_tags_cases update_conv' split: prod.splits)
  qed (use Some in \<open>cases reading;
        simp add: add_tags_run mutated_def tags_usable_def config_get_def dict_get_def
          split: prod.splits\<close>)+
qed

lemma step_6: "(step_of op = 6) = (op = VirtualMachines_create_or_update)"
  by (cases op) simp_all

lemma step_bind_lift:
  assumes "\<And>x. step_ok cfg k (f x)"
  shows "step_ok cfg k (bind (lift r) f)"
proof (cases r)
  case (Inl e)
  then show ?thesis by (simp add: step_ok_def bind_lift)
next
  case (Inr x)
  with assms [of x] show ?thesis by (simp add: step_ok_def bind_lift)
qed

lemma step_bind_get_config:
  assumes "\<And>c. step_ok cfg k (f c)"
  shows "step_ok cfg k (bind get_config f)"
  using assms by (simp add: step_ok_def bind_get_config)

lemma step_tagged_call:
  assumes "is_tagged op" and "step_of op = k" and "\<And>p. params_of (f p) = p"
  shows "step_ok cfg k (bind (add_tags az params) (\<lambda>p. call az op (f p)))"
  using assms
  by (auto simp: step_ok_def bind_def add_tags_mutated call_def tag_rule_def param_def
      update_conv' step_6 split: prod.splits sum.splits)

lemma step_subnet_call:
  "step_ok cfg 2 (call az Subnets_create_or_update [a, b, c, PDict [(''address_prefix'', x)]])"
  by (auto simp: step_ok_def call_def tag_rule_def param_def params_of_def is_tagged_def
      split: prod.splits sum.splits)

lemma params_of_2: "params_of [a, PDict d] = d"
  by (simp add: params_of_def)

lemma step_create_resource_group:
  "step_ok cfg 0 (create_resource_group az name location)"
  by (auto simp: step_ok_def create_resource_group_def try_except_def bind_def add_tags_mutated
      call_def tag_rule_def param_def params_of_2 update_conv' is_tagged_def is_create_def
      split: prod.splits sum.splits)

lemma step_create_virtual_network:
  "step_ok cfg 1 (create_virtual_network az rg name location)"
  unfolding create_virtual_network_def Let_def
  by (intro step_bind_get_config step_bind_lift step_tagged_call)
     (simp_all add: is_tagged_def is_create_def params_of_3)

lemma step_create_subnet:
  "step_ok cfg 2 (create_subnet az rg vnet name)"
  unfolding create_subnet_def Let_def
  by (intro step_bind_get_config step_bind_lift step_subnet_call)

lemma step_create_public_ip:
  "step_ok cfg 3 (create_public_ip az rg name location)"
  unfolding create_public_ip_def
  by (intro step_tagged_call) (simp_all add: is_tagged_def is_create_def params_of_3)

lemma step_create_network_security_group:
  "step_ok cfg 4 (create_network_security_group az rg name location)"
  unfolding create_network_security_group_def
  by (intro step_bind_get_config step_bind_lift step_tagged_call)
     (simp_all add: is_tagged_def is_create_def params_of_3)

lemma step_create_network_interface:
  "step_ok cfg 5 (create_network_interface az rg name location subnet_id ip_id nsg_id)"
  unfolding create_network_interface_def
  by (intro step_tagged_call) (simp_all add: is_tagged_def is_create_def params_of_3)

lemma step_create_virtual_machine:
  "step_ok cfg 6 (create_virtual_machine az rg name location nic_id user password)"
  unfolding create_virtual_machine_def Let_def
  by (intro step_bind_get_config step_bind_lift step_tagged_call)
     (simp_all add: is_tagged_def is_create_def params_of_3)

lemma public_ip_address_of_run:
  "public_ip_address_of az rg name s =
     (if truthy name
      then (case request az PublicIPAddresses_get [rg, name] (snd s) of
              (r, w') \<Rightarrow>
                (Inr (case r of
                        Inl e \<Rightarrow> PStr ''No asignada''
                      | Inr public_ip \<Rightarrow>
                          if truthy (ip_address public_ip) then ip_address public_ip
                          else PStr ''Pendiente''),
                 [Remote PublicIPAddresses_get [rg, name] r], (fst s, w')))
      else (Inr (PStr ''No asignada''), [], s))"
  by (auto simp: public_ip_address_of_def try_except_def bind_def call_def return_def
      split: prod.splits sum.splits)

lemma get_vm_info_run:
  "get_vm_info az rg vm_name s =
     (case request az VirtualMachines_get [rg, vm_name] (snd s) of
        (Inl e, w1) \<Rightarrow> (Inr [], [Remote VirtualMachines_get [rg, vm_name] (Inl e)], (fst s, w1))
      | (Inr vm, w1) \<Rightarrow>
          (case py_get (config_get (fst s) ''network'' (PDict [])) ''public_ip_name'' PNone of
             Inl e \<Rightarrow> (Inr [], [Remote VirtualMachines_get [rg, vm_name] (Inr vm)], (fst s, w1))
           | Inr public_ip_name \<Rightarrow>
               (case public_ip_address_of az rg public_ip_name (fst s, w1) of
                  (r, evs, s2) \<Rightarrow>
                    (Inr (case r of
                            Inl e \<Rightarrow> []
                          | Inr public_ip_address \<Rightarrow>
                              (case hardware_profile vm of
                                 None \<Rightarrow> []
                               | Some vm_size \<Rightarrow>
                                   [(''vm_name'', res_name vm),
                                    (''vm_id'', vm_id vm),
                                    (''location'', res_location vm),
                                    (''vm_size'', vm_size),
                                    (''provisioning_state'', provisioning_state vm),
                                    (''public_ip'', public_ip_address),
                                    (''admin_username'', config_get (fst s) ''admin_username'' PNone)])),
                     Remote VirtualMachines_get [rg, vm_name] (Inr vm) # evs, s2))))"
  by (auto simp: get_vm_info_def try_except_def bind_def call_def return_def raise_def lift_def
      get_config_def Let_def
      split: prod.splits sum.splits option.splits)

lemma readback_ok:
  "case get_vm_info az rg vm_name s of
     (r, evs, s') \<Rightarrow>
       (\<exists>d. r = Inr d) \<and> fst s' = fst s \<and> orderly 7 evs \<and> (\<forall>p. stamped T p evs)
     \<and> created_vm evs = None \<and> (\<forall>b. last_clock b evs = b)"
  by (auto simp: get_vm_info_run public_ip_address_of_run tag_rule_def is_tagged_def is_create_def
      split: prod.splits sum.splits)

lemma tail_vm:
  assumes step: "step_ok cfg 6 m"
  shows "tail_ok cfg 6 (bind m (\<lambda>vm. bind (get_vm_info az rg vm_name) (\<lambda>vm_info. return vm)))"
  unfolding tail_ok_def
proof (intro allI)
  fix reading w
  obtain r A s where m: "m (mutated cfg reading, w) = (r, A, s)"
    by (cases "m (mutated cfg reading, w)") auto
  from step [unfolded step_ok_def, rule_format, of reading w] m
  have s: "fst s = mutated cfg (last_clock reading A)"
    and oA: "orderly 6 A" and tA: "\<And>p. stamped (stamp cfg) p A"
    and rA: "case r of Inr h \<Rightarrow> alive A \<and> successes A = 1 \<and> created_vm A = Some h
               | Inl e \<Rightarrow> created_vm A = None"
    by (auto split: sum.splits)
  show "case bind m (\<lambda>vm. bind (get_vm_info az rg vm_name) (\<lambda>vm_info. return vm))
               (mutated cfg reading, w) of
          (r, evs, s) \<Rightarrow>
            fst s = mutated cfg (last_clock reading evs)
          \<and> orderly 6 evs
          \<and> (\<forall>pending. stamped (stamp cfg) pending evs)
          \<and> created_vm evs = (case r of Inr vm \<Rightarrow> Some vm | Inl e \<Rightarrow> None)"
  proof (cases r)
    case (Inl e)
    with m s oA tA rA show ?thesis by (simp add: bind_def)
  next
    case (Inr vm)
    obtain r' B s' where g: "get_vm_info az rg vm_name s = (r', B, s')"
      by (cases "get_vm_info az rg vm_name s") auto
    from readback_ok [where az = az and rg = rg and vm_name = vm_name and s = s and T = "stamp cfg"] g
    obtain d where r': "r' = Inr d" and s': "fst s' = fst s" and oB: "orderly 7 B"
      and tB: "\<And>p. stamped (stamp cfg) p B" and vB: "created_vm B = None"
      and lB: "\<And>b. last_clock b B = b"
      by auto
    from rA Inr have al: "alive A" and su: "successes A = 1" and vA: "created_vm A = Some vm"
      by auto
    have "orderly 6 (A @ B)"
      using oA al oB su by (intro orderly_append) simp_all
    moreover have "stamped (stamp cfg) p (A @ B)" for p
      using tA tB by (intro stamped_append)
    ultimately show ?thesis
      using m Inr g r' s' s vA lB
      by (simp add: bind_def return_def last_clock_append created_vm_append)
  qed
qed

lemma tail_bind_next:
  assumes "step_ok cfg k m" and "k < 6" and "k' = Suc k" and "\<And>x. tail_ok cfg k' (f x)"
  shows "tail_ok cfg k (bind m f)"
  using assms tail_bind_step [of cfg k m f] by simp

lemma tail_create_all: "tail_ok cfg 0 (create_all az)"
  unfolding create_all_def Let_def
  apply (rule tail_bind_get_config)
  apply (rule tail_bind_next [where k = 0 and k' = 1, OF step_create_resource_group], simp, simp)
  apply (rule tail_bind_lift)
  apply (rule tail_bind_next [where k = 1 and k' = 2, OF step_create_virtual_network], simp, simp)
  apply (rule tail_bind_lift)
  apply (rule tail_bind_lift)
  apply (rule tail_bind_next [where k = 2 and k' = 3, OF step_create_subnet], simp, simp)
  apply (rule tail_bind_lift)
  apply (rule tail_bind_next [where k = 3 and k' = 4, OF step_create_public_ip], simp, simp)
  apply (rule tail_bind_lift)
  apply (rule tail_bind_next [where k = 4 and k' = 5, OF step_create_network_security_group],
      simp, simp)
  apply (rule tail_bind_lift)
  apply (rule tail_bind_next [where k = 5 and k' = 6, OF step_create_network_interface],
      simp, simp)
  apply (rule tail_vm [OF step_create_virtual_machine])
  done

lemma create_complete_vm_run:
  "create_complete_vm az s =
     (case create_all az s of
        (r, evs, s') \<Rightarrow> (Inr (case r of Inl e \<Rightarrow> None | Inr vm \<Rightarrow> Some vm), evs, s'))"
  by (auto simp: create_complete_vm_def try_except_def bind_def return_def
      split: prod.splits sum.splits)

lemma run_ok:
  "result (create_complete_vm az (cfg, w)) = Inr (created_vm (events (create_complete_vm az (cfg, w))))"
  "final_config (create_complete_vm az (cfg, w)) =
     mutated cfg (last_clock None (events (create_complete_vm az (cfg, w))))"
  "orderly 0 (events (create_complete_vm az (cfg, w)))"
  "stamped (stamp cfg) None (events (create_complete_vm az (cfg, w)))"
  using tail_create_all [of cfg az, unfolded tail_ok_def, rule_format, of None w]
  by (auto simp: create_complete_vm_run result_def events_def final_config_def mutated_def
      split: prod.splits sum.splits)


section \<open>What the order of the requests implies\<close>

lemma orderly_ordered: "orderly k evs \<Longrightarrow> ordered k (attempts evs)"
  by (induction k evs rule: orderly.induct) (auto split: sum.splits if_splits)

lemma ordered_le: "ordered k (pre @ (op, b) # post) \<Longrightarrow> k \<le> step_of op"
proof (induction pre arbitrary: k)
  case Nil
  then show ?case by simp
next
  case (Cons a pre)
  obtain op' b' where a: "a = (op', b')" by (cases a)
  show ?case
  proof (cases b')
    case True
    with Cons.prems a have "ordered (Suc k) (pre @ (op, b) # post)" by simp
    from Cons.IH [OF this] show ?thesis by simp
  next
    case False
    with Cons.prems a have "ordered k (pre @ (op, b) # post)" by (auto split: if_splits)
    from Cons.IH [OF this] show ?thesis .
  qed
qed

lemma ordered_steps:
  "ordered k (pre @ (op, b) # post) \<Longrightarrow> map (step_of \<circ> fst) (filter snd pre) = [k..<step_of op]"
proof (induction pre arbitrary: k)
  case Nil
  then show ?case by simp
next
  case (Cons a pre)
  obtain op' b' where a: "a = (op', b')" by (cases a)
  show ?case
  proof (cases b')
    case True
    with Cons.prems a have k: "step_of op' = k" and o: "ordered (Suc k) (pre @ (op, b) # post)"
      by simp_all
    from ordered_le [OF o] have "k < step_of op" by simp
    with Cons.IH [OF o] k a True show ?thesis by (simp add: upt_conv_Cons)
  next
    case False
    with Cons.prems a have "ordered k (pre @ (op, b) # post)" by (auto split: if_splits)
    from Cons.IH [OF this] a False show ?thesis by simp
  qed
qed

lemma ordered_failed_last:
  "ordered k (pre @ (op, False) # post) \<Longrightarrow> op \<noteq> ResourceGroups_get \<Longrightarrow> post = []"
proof (induction pre arbitrary: k)
  case Nil
  then show ?case by simp
next
  case (Cons a pre)
  obtain op' b' where a: "a = (op', b')" by (cases a)
  from Cons.prems(1) a have "\<exists>k'. ordered k' (pre @ (op, False) # post)"
    by (auto split: if_splits)
  with Cons.IH Cons.prems(2) show ?case by blast
qed

lemma ordered_sorted:
  "ordered k as \<Longrightarrow>
     sorted_wrt (<) (map step_of (filter is_create (map fst as))) \<and>
     (\<forall>op \<in> set (map fst as). k \<le> step_of op)"
proof (induction k as rule: ordered.induct)
  case (1 k)
  then show ?case by simp
next
  case (2 k op b as)
  show ?case
  proof (cases b)
    case True
    with 2 show ?thesis by (auto simp: Suc_le_eq dest: Suc_leD)
  next
    case False
    with 2 show ?thesis by (auto simp: is_create_def split: if_splits)
  qed
qed

lemma step_of_inj: "step_of a = step_of b \<Longrightarrow> 0 < step_of a \<Longrightarrow> a = b"
  by (cases a; cases b) simp_all

lemma step_0: "(step_of op = 0) = (op = ResourceGroups_get \<or> op = ResourceGroups_create_or_update)"
  by (cases op) simp_all

lemma ordered_before:
  assumes "ordered 0 (pre @ (op, b) # post)" and "j < step_of op"
  shows "\<exists>op'. step_of op' = j \<and> (op', True) \<in> set pre"
proof -
  from ordered_steps [OF assms(1)] have "map (step_of \<circ> fst) (filter snd pre) = [0..<step_of op]" .
  with assms(2) have "j \<in> set (map (step_of \<circ> fst) (filter snd pre))" by simp
  then show ?thesis by auto
qed

lemma created_vm_None:
  "(VirtualMachines_create_or_update, True) \<notin> set (attempts evs) \<Longrightarrow> created_vm evs = None"
  by (induction evs rule: created_vm.induct) (auto split: sum.splits)

lemma created_vm_Some:
  "(VirtualMachines_create_or_update, True) \<in> set (attempts evs) \<Longrightarrow> \<exists>vm. created_vm evs = Some vm"
  by (induction evs rule: created_vm.induct) (auto split: sum.splits)

lemma stamped_tagged:
  "stamped T p (pre @ Remote op args r # post) \<Longrightarrow> is_tagged op \<Longrightarrow>
     \<exists>t. (pre = [] \<and> p = Some t \<or> (\<exists>pre'. pre = pre' @ [Clock t]))
        \<and> param args ''tags'' = Some (PDict (T t))"
proof (induction pre arbitrary: p)
  case Nil
  then show ?case by (auto simp: tag_rule_def split: option.splits)
next
  case (Cons e pre)
  show ?case
  proof (cases e)
    case (Clock t')
    with Cons.prems have "stamped T (Some t') (pre @ Remote op args r # post)" by simp
    from Cons.IH [OF this Cons.prems(2)] Clock show ?thesis by auto
  next
    case (Remote op' args' r')
    with Cons.prems have "stamped T None (pre @ Remote op args r # post)" by simp
    from Cons.IH [OF this Cons.prems(2)] Remote show ?thesis by auto
  qed
qed

lemma stamped_subnet:
  "stamped T p (pre @ Remote Subnets_create_or_update args r # post) \<Longrightarrow>
     param args ''tags'' = None"
proof (induction pre arbitrary: p)
  case Nil
  then show ?case by (simp add: tag_rule_def is_tagged_def)
next
  case (Cons e pre)
  then show ?case by (cases e) auto
qed

lemma run_ordered: "ordered 0 (attempts (events (create_complete_vm az (cfg, w))))"
  by (rule orderly_ordered) (rule run_ok)


section \<open>Example runs\<close>

lemmas run_defs =
  create_complete_vm_def create_all_def create_resource_group_def create_virtual_network_def
  create_subnet_def create_public_ip_def create_network_security_group_def
  create_network_interface_def create_virtual_machine_def get_vm_info_def
  public_ip_address_of_def add_tags_def security_rules_def ssh_rule_def deny_all_inbound_def
  bind_def try_except_def return_def raise_def lift_def get_config_def put_config_def call_def
  now_isoformat_def config_get_def dict_get_def web01_config_def default_config_def
  sim_azure_def sim_request_def sim_resource_def resource_name_def Let_def py_str_22

lemma web01_rg_fails:
  "create_complete_vm (sim_azure [ResourceGroups_create_or_update]) (web01_config, ([], ''t'')) =
     (Inr None,
      [Remote ResourceGroups_get [PStr ''rg-web''] (Inl (AzureError ''ResourceGroupNotFound'')),
       Clock ''t'',
       Remote ResourceGroups_create_or_update
         [PStr ''rg-web'',
          PDict [(''location'', PStr ''East US''),
                 (''tags'', PDict [(''Environment'', PStr ''Production''),
                                   (''CreatedBy'', PStr ''AzureVMCreator''),
                                   (''Project'', PStr ''Infrastructure''),
                                   (''CreatedAt'', PStr ''t'')])]]
         (Inl (AzureError ''request failed''))],
      (AList.update ''tags''
         (PDict [(''Environment'', PStr ''Production''),
                 (''CreatedBy'', PStr ''AzureVMCreator''),
                 (''Project'', PStr ''Infrastructure''),
                 (''CreatedAt'', PStr ''t'')]) web01_config,
       ([], ''t+'')))"
  by (simp add: run_defs)

lemma web01_vnet_fails:
  "attempts (events (create_complete_vm (sim_azure [VirtualNetworks_create_or_update])
                       (web01_config, ([], ''t'')))) =
     [(ResourceGroups_get, False), (ResourceGroups_create_or_update, True),
      (VirtualNetworks_create_or_update, False)]" (is ?A)
  "result (create_complete_vm (sim_azure [VirtualNetworks_create_or_update])
             (web01_config, ([], ''t''))) = Inr None" (is ?B)
proof -
  have "case create_complete_vm (sim_azure [VirtualNetworks_create_or_update])
               (web01_config, ([], ''t'')) of
          (r, evs, s) \<Rightarrow>
            attempts evs =
              [(ResourceGroups_get, False), (ResourceGroups_create_or_update, True),
               (VirtualNetworks_create_or_update, False)]
          \<and> r = Inr None"
    by (simp add: run_defs)
  then show ?A ?B by (auto simp: events_def result_def split: prod.splits)
qed

lemma web01_nsg_fails:
  "attempts (events (create_complete_vm (sim_azure [NetworkSecurityGroups_create_or_update])
                       (web01_config, ([], ''t'')))) =
     [(ResourceGroups_get, False), (ResourceGroups_create_or_update, True),
      (VirtualNetworks_create_or_update, True), (Subnets_create_or_update, True),
      (PublicIPAddresses_create_or_update, True),
      (NetworkSecurityGroups_create_or_update, False)]" (is ?A)
  "result (create_complete_vm (sim_azure [NetworkSecurityGroups_create_or_update])
             (web01_config, ([], ''t''))) = Inr None" (is ?B)
proof -
  have "case create_complete_vm (sim_azure [NetworkSecurityGroups_create_or_update])
               (web01_config, ([], ''t'')) of
          (r, evs, s) \<Rightarrow>
            attempts evs =
              [(ResourceGroups_get, False), (ResourceGroups_create_or_update, True),
               (VirtualNetworks_create_or_update, True), (Subnets_create_or_update, True),
               (PublicIPAddresses_create_or_update, True),
               (NetworkSecurityGroups_create_or_update, False)]
          \<and> r = Inr None"
    by (simp add: run_defs)
  then show ?A ?B by (auto simp: events_def result_def split: prod.splits)
qed

lemma web01_lookup_fails:
  "attempts (events (create_complete_vm (sim_azure [PublicIPAddresses_get])
                       (web01_config, ([], ''t'')))) =
     [(ResourceGroups_get, False), (ResourceGroups_create_or_update, True),
      (VirtualNetworks_create_or_update, True), (Subnets_create_or_update, True),
      (PublicIPAddresses_create_or_update, True), (NetworkSecurityGroups_create_or_update, True),
      (NetworkInterfaces_create_or_update, True), (VirtualMachines_create_or_update, True),
      (VirtualMachines_get, True), (PublicIPAddresses_get, False)]" (is ?A)
  "result (create_complete_vm (sim_azure [PublicIPAddresses_get]) (web01_config, ([], ''t''))) =
     Inr (Some (sim_resource [PStr ''rg-web'', PStr ''web01'', PDict []]))" (is ?B)
proof -
  have "case create_complete_vm (sim_azure [PublicIPAddresses_get]) (web01_config, ([], ''t'')) of
          (r, evs, s) \<Rightarrow>
            attempts evs =
              [(ResourceGroups_get, False), (ResourceGroups_create_or_update, True),
               (VirtualNetworks_create_or_update, True), (Subnets_create_or_update, True),
               (PublicIPAddresses_create_or_update, True),
               (NetworkSecurityGroups_create_or_update, True),
               (NetworkInterfaces_create_or_update, True),
               (VirtualMachines_create_or_update, True),
               (VirtualMachines_get, True), (PublicIPAddresses_get, False)]
          \<and> r = Inr (Some (sim_resource [PStr ''rg-web'', PStr ''web01'', PDict []]))"
    by (simp add: run_defs)
  then show ?A ?B by (auto simp: events_def result_def split: prod.splits)
qed

lemma web01_summary:
  "result (get_vm_info (sim_azure [PublicIPAddresses_get]) (PStr ''rg-web'') (PStr ''web01'')
             (web01_config, ([], ''t''))) =
     Inr [(''vm_name'', PStr ''web01''),
          (''vm_id'', PStr ''0000-0001''),
          (''location'', PStr ''eastus''),
          (''vm_size'', PStr ''Standard_B2s''),
          (''provisioning_state'', PStr ''Succeeded''),
          (''public_ip'', PStr ''No asignada''),
          (''admin_username'', PStr ''azureuser'')]"
  "result (get_vm_info (sim_azure []) (PStr ''rg-web'') (PStr ''web01'')
             (web01_config, ([], ''t''))) =
     Inr [(''vm_name'', PStr ''web01''),
          (''vm_id'', PStr ''0000-0001''),
          (''location'', PStr ''eastus''),
          (''vm_size'', PStr ''Standard_B2s''),
          (''provisioning_state'', PStr ''Succeeded''),
          (''public_ip'', PStr ''Pendiente''),
          (''admin_username'', PStr ''azureuser'')]"
  by (simp_all add: run_defs result_def)

section \<open>The order of the steps and the outcome of a failure\<close>

text \<open>
  Claim C5. In every run of \<^verbatim>\<open>create_complete_vm\<close> the creation requests are made in the
  fixed order resource group, virtual network, subnet, public IP, security group, network
  interface, machine, each at most once; and when a request is attempted, every creation
  request of an earlier step has returned a handle (for the resource group: its lookup or its
  creation has). So the network interface is never attempted before the subnet, the public
  IP and the security group have returned, nor the machine before the network interface has.
\<close>

theorem creation_steps_sequential:
  "sorted_wrt (<)
     (map step_of (filter is_create (map fst (attempts (events (create_complete_vm az (cfg, w)))))))
   \<and> (\<forall>pre op b post op'.
        attempts (events (create_complete_vm az (cfg, w))) = pre @ (op, b) # post
        \<and> 0 < step_of op' \<and> step_of op' < step_of op
        \<longrightarrow> (op', True) \<in> set pre)
   \<and> (\<forall>pre op b post.
        attempts (events (create_complete_vm az (cfg, w))) = pre @ (op, b) # post
        \<and> 0 < step_of op
        \<longrightarrow> (ResourceGroups_get, True) \<in> set pre
          \<or> (ResourceGroups_create_or_update, True) \<in> set pre)"
proof (intro conjI allI impI)
  show "sorted_wrt (<)
     (map step_of (filter is_create (map fst (attempts (events (create_complete_vm az (cfg, w)))))))"
    using ordered_sorted [OF run_ordered [of az cfg w]] by simp
next
  fix pre op b post op'
  assume a: "attempts (events (create_complete_vm az (cfg, w))) = pre @ (op, b) # post
    \<and> 0 < step_of op' \<and> step_of op' < step_of op"
  with run_ordered [of az cfg w] have "ordered 0 (pre @ (op, b) # post)" by simp
  from ordered_before [OF this, of "step_of op'"] a
  obtain op'' where "step_of op'' = step_of op'" and "(op'', True) \<in> set pre" by auto
  with a step_of_inj [of op' op''] show "(op', True) \<in> set pre" by simp
next
  fix pre op b post
  assume a: "attempts (events (create_complete_vm az (cfg, w))) = pre @ (op, b) # post
    \<and> 0 < step_of op"
  with run_ordered [of az cfg w] have "ordered 0 (pre @ (op, b) # post)" by simp
  from ordered_before [OF this, of 0] a
  obtain op'' where "step_of op'' = 0" and "(op'', True) \<in> set pre" by auto
  then show "(ResourceGroups_get, True) \<in> set pre
          \<or> (ResourceGroups_create_or_update, True) \<in> set pre"
    by (auto simp: step_0)
qed

theorem creation_steps_sequential_witness:
  "attempts (events (create_complete_vm (sim_azure [PublicIPAddresses_get])
                       (web01_config, ([], ''t'')))) =
     [(ResourceGroups_get, False), (ResourceGroups_create_or_update, True),
      (VirtualNetworks_create_or_update, True), (Subnets_create_or_update, True),
      (PublicIPAddresses_create_or_update, True), (NetworkSecurityGroups_create_or_update, True)]
     @ (NetworkInterfaces_create_or_update, True)
     # [(VirtualMachines_create_or_update, True), (VirtualMachines_get, True),
        (PublicIPAddresses_get, False)]
   \<and> 0 < step_of Subnets_create_or_update
   \<and> step_of Subnets_create_or_update < step_of NetworkInterfaces_create_or_update
   \<and> (Subnets_create_or_update, True) \<in>
       set [(ResourceGroups_get, False), (ResourceGroups_create_or_update, True),
            (VirtualNetworks_create_or_update, True), (Subnets_create_or_update, True),
            (PublicIPAddresses_create_or_update, True),
            (NetworkSecurityGroups_create_or_update, True)]
   \<and> sorted_wrt (<)
       (map step_of (filter is_create (map fst
          (attempts (events (create_complete_vm (sim_azure [PublicIPAddresses_get])
                               (web01_config, ([], ''t''))))))))"
  using creation_steps_sequential [of "sim_azure [PublicIPAddresses_get]" web01_config "([], ''t'')"]
  by (simp add: web01_lookup_fails)

text \<open>
  Claim C2, as the code has it. When a creation request of a run fails, it is the last
  request of the run (no later creation is attempted), the requests that returned before it
  are those of the steps before its own, in order, and \<^verbatim>\<open>create_complete_vm\<close> returns
  \<^verbatim>\<open>None\<close>: the outcome names neither the failed step nor its cause, and lists no
  resource.
\<close>

theorem failure_stops_the_run:
  assumes "attempts (events (create_complete_vm az (cfg, w))) = pre @ (op, False) # post"
    and "is_create op"
  shows "post = []
       \<and> map (step_of \<circ> fst) (filter snd pre) = [0..<step_of op]
       \<and> result (create_complete_vm az (cfg, w)) = Inr None"
proof -
  from assms(1) run_ordered [of az cfg w]
  have o: "ordered 0 (pre @ (op, False) # post)" by simp
  from assms(2) have ne: "op \<noteq> ResourceGroups_get" by (simp add: is_create_def)
  from ordered_failed_last [OF o ne] have post: "post = []" .
  from ordered_steps [OF o] have steps: "map (step_of \<circ> fst) (filter snd pre) = [0..<step_of op]" .
  from assms(2) have le: "step_of op \<le> 6" by (cases op) (simp_all add: is_create_def)
  have "(VirtualMachines_create_or_update, True) \<notin> set pre"
  proof
    assume "(VirtualMachines_create_or_update, True) \<in> set pre"
    then have "(VirtualMachines_create_or_update, True) \<in> set (filter snd pre)" by simp
    then have "step_of VirtualMachines_create_or_update
        \<in> set (map (step_of \<circ> fst) (filter snd pre))"
      by (force simp: image_iff)
    with steps le show False by simp
  qed
  with assms(1) post
  have "(VirtualMachines_create_or_update, True)
      \<notin> set (attempts (events (create_complete_vm az (cfg, w))))"
    by simp
  from created_vm_None [OF this] run_ok(1) [of az cfg w]
  have "result (create_complete_vm az (cfg, w)) = Inr None" by simp
  with post steps show ?thesis by simp
qed

theorem failure_stops_the_run_witness:
  "attempts (events (create_complete_vm (sim_azure [NetworkSecurityGroups_create_or_update])
                       (web01_config, ([], ''t'')))) =
     [(ResourceGroups_get, False), (ResourceGroups_create_or_update, True),
      (VirtualNetworks_create_or_update, True), (Subnets_create_or_update, True),
      (PublicIPAddresses_create_or_update, True)]
     @ (NetworkSecurityGroups_create_or_update, False) # []
   \<and> is_create NetworkSecurityGroups_create_or_update
   \<and> map (step_of \<circ> fst) (filter snd
        [(ResourceGroups_get, False), (ResourceGroups_create_or_update, True),
         (VirtualNetworks_create_or_update, True), (Subnets_create_or_update, True),
         (PublicIPAddresses_create_or_update, True)]) = [0, 1, 2, 3]
   \<and> result (create_complete_vm (sim_azure [NetworkSecurityGroups_create_or_update])
               (web01_config, ([], ''t''))) = Inr None"
  using failure_stops_the_run
    [of "sim_azure [NetworkSecurityGroups_create_or_update]" web01_config "([], ''t'')"
        "[(ResourceGroups_get, False), (ResourceGroups_create_or_update, True),
          (VirtualNetworks_create_or_update, True), (Subnets_create_or_update, True),
          (PublicIPAddresses_create_or_update, True)]"
        NetworkSecurityGroups_create_or_update "[]"]
  by (simp add: web01_nsg_fails is_create_def)

text \<open>
  Claim C2 as stated fails: the run in which the security group fails and the run in which
  the virtual network fails return the same outcome, \<^verbatim>\<open>None\<close>, although the failed step
  and the resources created before it differ; the outcome carries none of them.
\<close>

theorem failure_outcome_counterexample:
  "result (create_complete_vm (sim_azure [NetworkSecurityGroups_create_or_update])
             (web01_config, ([], ''t''))) = Inr None
   \<and> result (create_complete_vm (sim_azure [VirtualNetworks_create_or_update])
               (web01_config, ([], ''t''))) = Inr None
   \<and> map fst (filter snd (attempts (events
        (create_complete_vm (sim_azure [NetworkSecurityGroups_create_or_update])
           (web01_config, ([], ''t''))))))
     = [ResourceGroups_create_or_update, VirtualNetworks_create_or_update,
        Subnets_create_or_update, PublicIPAddresses_create_or_update]
   \<and> map fst (filter snd (attempts (events
        (create_complete_vm (sim_azure [VirtualNetworks_create_or_update])
           (web01_config, ([], ''t''))))))
     = [ResourceGroups_create_or_update]"
  by (simp add: web01_nsg_fails web01_vnet_fails)

section \<open>The tags of the requests\<close>

lemma web01_tags:
  "configured_tags web01_config =
     [(''Environment'', PStr ''Production''),
      (''CreatedBy'', PStr ''AzureVMCreator''),
      (''Project'', PStr ''Infrastructure'')]"
  by (simp add: configured_tags_def config_get_def dict_get_def web01_config_def
      default_config_def)

text \<open>
  Claim C7, as the code has it. In every run, each creation request except the subnet's
  comes right after a reading of the clock made for it, and carries as tags the configured
  tags with \<^verbatim>\<open>CreatedAt\<close> set to that reading; the request that creates the subnet carries
  no tags. The computation is not per-call only: \<^verbatim>\<open>_add_tags\<close> writes the timestamp into
  the dictionary of tags stored in the configuration, so after the run the stored tags hold
  the \<^verbatim>\<open>CreatedAt\<close> of the last reading (when the configuration has a dictionary of tags).
\<close>

theorem tags_stamped_per_request:
  assumes "events (create_complete_vm az (cfg, w)) = pre @ Remote op args r # post"
  shows "(is_tagged op \<longrightarrow>
            (\<exists>pre' t. pre = pre' @ [Clock t]
                    \<and> param args ''tags'' = Some (PDict (stamp cfg t))))
       \<and> (op = Subnets_create_or_update \<longrightarrow> param args ''tags'' = None)
       \<and> final_config (create_complete_vm az (cfg, w)) =
           mutated cfg (last_clock None (events (create_complete_vm az (cfg, w))))"
proof -
  from run_ok(4) [of cfg az w] assms
  have st: "stamped (stamp cfg) None (pre @ Remote op args r # post)" by simp
  have "\<exists>pre' t. pre = pre' @ [Clock t] \<and> param args ''tags'' = Some (PDict (stamp cfg t))"
    if "is_tagged op"
    using stamped_tagged [OF st that] by auto
  moreover have "param args ''tags'' = None" if "op = Subnets_create_or_update"
    using stamped_subnet [of "stamp cfg" None pre args r post] st that by simp
  ultimately show ?thesis using run_ok(2) [of az cfg w] by blast
qed

theorem tags_stamped_per_request_witness:
  "events (create_complete_vm (sim_azure [ResourceGroups_create_or_update])
             (web01_config, ([], ''t''))) =
     [Remote ResourceGroups_get [PStr ''rg-web''] (Inl (AzureError ''ResourceGroupNotFound'')),
      Clock ''t'']
     @ Remote ResourceGroups_create_or_update
         [PStr ''rg-web'',
          PDict [(''location'', PStr ''East US''),
                 (''tags'', PDict [(''Environment'', PStr ''Production''),
                                   (''CreatedBy'', PStr ''AzureVMCreator''),
                                   (''Project'', PStr ''Infrastructure''),
                                   (''CreatedAt'', PStr ''t'')])]]
         (Inl (AzureError ''request failed'')) # []
   \<and> is_tagged ResourceGroups_create_or_update
   \<and> (\<exists>pre' t.
         [Remote ResourceGroups_get [PStr ''rg-web''] (Inl (AzureError ''ResourceGroupNotFound'')),
          Clock ''t''] = pre' @ [Clock t]
       \<and> param [PStr ''rg-web'',
                 PDict [(''location'', PStr ''East US''),
                        (''tags'', PDict [(''Environment'', PStr ''Production''),
                                          (''CreatedBy'', PStr ''AzureVMCreator''),
                                          (''Project'', PStr ''Infrastructure''),
                                          (''CreatedAt'', PStr ''t'')])]] ''tags''
           = Some (PDict (stamp web01_config t)))
   \<and> stamp web01_config ''t'' =
       [(''Environment'', PStr ''Production''),
        (''CreatedBy'', PStr ''AzureVMCreator''),
        (''Project'', PStr ''Infrastructure''),
        (''CreatedAt'', PStr ''t'')]"
  using tags_stamped_per_request
    [of "sim_azure [ResourceGroups_create_or_update]" web01_config "([], ''t'')"
        "[Remote ResourceGroups_get [PStr ''rg-web''] (Inl (AzureError ''ResourceGroupNotFound'')),
          Clock ''t'']"
        ResourceGroups_create_or_update
        "[PStr ''rg-web'',
          PDict [(''location'', PStr ''East US''),
                 (''tags'', PDict [(''Environment'', PStr ''Production''),
                                   (''CreatedBy'', PStr ''AzureVMCreator''),
                                   (''Project'', PStr ''Infrastructure''),
                                   (''CreatedAt'', PStr ''t'')])]]"
        "Inl (AzureError ''request failed'')" "[]"]
  by (simp add: web01_rg_fails events_def is_tagged_def is_create_def stamp_def web01_tags)

text \<open>
  Claim C7 as stated fails in its last part: after the run of the example in which the
  creation of the resource group fails, the tags stored in the configuration hold the
  timestamp of the call, which the configuration did not have before.
\<close>

theorem stored_tags_counterexample:
  "dict_get web01_config ''tags'' PNone =
     PDict [(''Environment'', PStr ''Production''),
            (''CreatedBy'', PStr ''AzureVMCreator''),
            (''Project'', PStr ''Infrastructure'')]
   \<and> dict_get (final_config (create_complete_vm (sim_azure [ResourceGroups_create_or_update])
                                (web01_config, ([], ''t'')))) ''tags'' PNone =
     PDict [(''Environment'', PStr ''Production''),
            (''CreatedBy'', PStr ''AzureVMCreator''),
            (''Project'', PStr ''Infrastructure''),
            (''CreatedAt'', PStr ''t'')]"
  unfolding web01_rg_fails final_config_def
  by (simp add: dict_get_def web01_config_def default_config_def)

section \<open>The read-back of the machine\<close>

lemma get_vm_info_returns: "\<exists>d. result (get_vm_info az rg name s) = Inr d"
  using readback_ok [where az = az and rg = rg and vm_name = name and s = s and T = "\<lambda>t. []"]
  by (auto simp: result_def split: prod.splits)

lemma get_vm_info_public_ip:
  assumes "request az VirtualMachines_get [rg, name] (snd s) = (Inr vm, w1)"
    and "hardware_profile vm = Some vm_size"
    and "py_get (config_get (fst s) ''network'' (PDict [])) ''public_ip_name'' PNone = Inr pip"
    and "truthy pip"
    and "request az PublicIPAddresses_get [rg, pip] w1 = (r, w2)"
  shows "\<exists>d. result (get_vm_info az rg name s) = Inr d \<and>
           map_of d ''public_ip'' =
             Some (case r of
                     Inl e \<Rightarrow> PStr ''No asignada''
                   | Inr ip \<Rightarrow> if truthy (ip_address ip) then ip_address ip
                              else PStr ''Pendiente'')"
  using assms by (simp add: get_vm_info_run public_ip_address_of_run result_def)

lemma readback_after_creation:
  assumes "attempts (events (create_complete_vm az (cfg, w))) = pre @ (op, b) # post"
    and "op = VirtualMachines_get \<or> op = PublicIPAddresses_get"
  shows "\<exists>vm. result (create_complete_vm az (cfg, w)) = Inr (Some vm)"
proof -
  from assms(1) run_ordered [of az cfg w] have o: "ordered 0 (pre @ (op, b) # post)" by simp
  from assms(2) have "6 < step_of op" by auto
  from ordered_before [OF o this] obtain op' where "step_of op' = 6" and "(op', True) \<in> set pre"
    by auto
  then have "(VirtualMachines_create_or_update, True) \<in> set pre" by (simp add: step_6)
  with assms(1)
  have "(VirtualMachines_create_or_update, True)
      \<in> set (attempts (events (create_complete_vm az (cfg, w))))"
    by simp
  from created_vm_Some [OF this] run_ok(1) [of az cfg w] show ?thesis by auto
qed

lemma get_vm_info_no_name:
  assumes "request az VirtualMachines_get [rg, name] (snd s) = (Inr vm, w1)"
    and "hardware_profile vm = Some vm_size"
    and "py_get (config_get (fst s) ''network'' (PDict [])) ''public_ip_name'' PNone = Inr pip"
    and "\<not> truthy pip"
  shows "\<exists>d. result (get_vm_info az rg name s) = Inr d \<and>
           map_of d ''public_ip'' = Some (PStr ''No asignada'')"
  using assms by (simp add: get_vm_info_run public_ip_address_of_run result_def)

lemma get_vm_info_empty:
  "request az VirtualMachines_get [rg, name] (snd s) = (Inl e, w1) \<Longrightarrow>
     result (get_vm_info az rg name s) = Inr []"
  "request az VirtualMachines_get [rg, name] (snd s) = (Inr vm, w1) \<Longrightarrow>
     hardware_profile vm = None \<Longrightarrow> result (get_vm_info az rg name s) = Inr []"
  "request az VirtualMachines_get [rg, name] (snd s) = (Inr vm, w1) \<Longrightarrow>
     py_get (config_get (fst s) ''network'' (PDict [])) ''public_ip_name'' PNone = Inl e \<Longrightarrow>
     result (get_vm_info az rg name s) = Inr []"
  by (auto simp: get_vm_info_run result_def split: prod.splits sum.splits)

text \<open>
  Claim C6, as the code has it. \<^verbatim>\<open>get_vm_info\<close> always returns a summary, whatever the
  requests of the read-back do. When the read of the machine returns a machine that has a
  hardware profile, and the network section can be read, the field \<^verbatim>\<open>public_ip\<close> of the
  summary is the placeholder \<^verbatim>\<open>No asignada\<close> if no public IP name is configured or the
  lookup of the public IP fails, the placeholder \<^verbatim>\<open>Pendiente\<close> if the address is not
  allocated yet, and the address otherwise. When the read of the machine fails, the machine
  has no hardware profile or the network section is no dictionary, the summary is empty and
  has no field \<^verbatim>\<open>public_ip\<close>. The failure is never escalated: a run that reaches the
  read-back returns the machine it created, whether the requests of the read-back return or
  raise.
\<close>

theorem lookup_failure_not_escalated:
  "(\<exists>d. result (get_vm_info az rg name s) = Inr d)
   \<and> (\<forall>vm w1 vm_size pip r w2.
        request az VirtualMachines_get [rg, name] (snd s) = (Inr vm, w1)
        \<and> hardware_profile vm = Some vm_size
        \<and> py_get (config_get (fst s) ''network'' (PDict [])) ''public_ip_name'' PNone = Inr pip
        \<and> truthy pip
        \<and> request az PublicIPAddresses_get [rg, pip] w1 = (r, w2)
        \<longrightarrow> (\<exists>d. result (get_vm_info az rg name s) = Inr d \<and>
               map_of d ''public_ip'' =
                 Some (case r of
                         Inl e \<Rightarrow> PStr ''No asignada''
                       | Inr ip \<Rightarrow> if truthy (ip_address ip) then ip_address ip
                                  else PStr ''Pendiente'')))
   \<and> (\<forall>vm w1 vm_size pip.
        request az VirtualMachines_get [rg, name] (snd s) = (Inr vm, w1)
        \<and> hardware_profile vm = Some vm_size
        \<and> py_get (config_get (fst s) ''network'' (PDict [])) ''public_ip_name'' PNone = Inr pip
        \<and> \<not> truthy pip
        \<longrightarrow> (\<exists>d. result (get_vm_info az rg name s) = Inr d \<and>
               map_of d ''public_ip'' = Some (PStr ''No asignada'')))
   \<and> (\<forall>e w1.
        request az VirtualMachines_get [rg, name] (snd s) = (Inl e, w1)
        \<longrightarrow> result (get_vm_info az rg name s) = Inr [])
   \<and> (\<forall>vm w1.
        request az VirtualMachines_get [rg, name] (snd s) = (Inr vm, w1)
        \<and> hardware_profile vm = None
        \<longrightarrow> result (get_vm_info az rg name s) = Inr [])
   \<and> (\<forall>vm w1 e.
        request az VirtualMachines_get [rg, name] (snd s) = (Inr vm, w1)
        \<and> py_get (config_get (fst s) ''network'' (PDict [])) ''public_ip_name'' PNone = Inl e
        \<longrightarrow> result (get_vm_info az rg name s) = Inr [])
   \<and> (\<forall>pre op b post.
        attempts (events (create_complete_vm az (cfg, w))) = pre @ (op, b) # post
        \<and> (op = VirtualMachines_get \<or> op = PublicIPAddresses_get)
        \<longrightarrow> (\<exists>vm. result (create_complete_vm az (cfg, w)) = Inr (Some vm)))"
  apply (intro conjI allI impI)
        apply (rule get_vm_info_returns)
       apply (elim conjE, rule get_vm_info_public_ip; assumption)
      apply (elim conjE, rule get_vm_info_no_name; assumption)
     apply (erule get_vm_info_empty(1))
    apply (elim conjE, rule get_vm_info_empty(2); assumption)
   apply (elim conjE, rule get_vm_info_empty(3); assumption)
  apply (elim conjE, rule readback_after_creation; assumption)
  done

theorem lookup_failure_not_escalated_witness:
  "(\<exists>d. result (get_vm_info (sim_azure [PublicIPAddresses_get]) (PStr ''rg-web'') (PStr ''web01'')
                 (web01_config, ([], ''t''))) = Inr d
        \<and> map_of d ''public_ip'' = Some (PStr ''No asignada''))
   \<and> attempts (events (create_complete_vm (sim_azure [PublicIPAddresses_get])
                         (web01_config, ([], ''t'')))) =
       [(ResourceGroups_get, False), (ResourceGroups_create_or_update, True),
        (VirtualNetworks_create_or_update, True), (Subnets_create_or_update, True),
        (PublicIPAddresses_create_or_update, True), (NetworkSecurityGroups_create_or_update, True),
        (NetworkInterfaces_create_or_update, True), (VirtualMachines_create_or_update, True),
        (VirtualMachines_get, True)]
       @ (PublicIPAddresses_get, False) # []
   \<and> (\<exists>vm. result (create_complete_vm (sim_azure [PublicIPAddresses_get])
                      (web01_config, ([], ''t''))) = Inr (Some vm))"
proof -
  let ?az = "sim_azure [PublicIPAddresses_get]"
  let ?rg = "PStr ''rg-web''"
  let ?name = "PStr ''web01''"
  let ?w = "([], ''t'') :: pyval list \<times> string"
  let ?pre = "[(ResourceGroups_get, False), (ResourceGroups_create_or_update, True),
        (VirtualNetworks_create_or_update, True), (Subnets_create_or_update, True),
        (PublicIPAddresses_create_or_update, True), (NetworkSecurityGroups_create_or_update, True),
        (NetworkInterfaces_create_or_update, True), (VirtualMachines_create_or_update, True),
        (VirtualMachines_get, True)]"
  have vm: "request ?az VirtualMachines_get [?rg, ?name] (snd (web01_config, ?w))
      = (Inr (sim_resource [?rg, ?name]), ?w)"
    by (simp add: sim_azure_def sim_request_def)
  have size: "hardware_profile (sim_resource [?rg, ?name]) = Some (PStr ''Standard_B2s'')"
    by (simp add: sim_resource_def)
  have pip: "py_get (config_get (fst (web01_config, ?w)) ''network'' (PDict []))
      ''public_ip_name'' PNone = Inr (PStr ''ip-azure-vm'')"
    by (simp add: config_get_def dict_get_def web01_config_def default_config_def)
  have ip: "request ?az PublicIPAddresses_get [?rg, PStr ''ip-azure-vm''] ?w
      = (Inl (AzureError ''request failed''), ?w)"
    by (simp add: sim_azure_def sim_request_def)
  have run: "attempts (events (create_complete_vm ?az (web01_config, ?w)))
      = ?pre @ (PublicIPAddresses_get, False) # []"
    by (simp add: web01_lookup_fails)
  note all = lookup_failure_not_escalated [of ?az ?rg ?name "(web01_config, ?w)" web01_config ?w]
  note summary = all [THEN conjunct2, THEN conjunct1, rule_format,
      of "sim_resource [?rg, ?name]" ?w "PStr ''Standard_B2s''" "PStr ''ip-azure-vm''"
         "Inl (AzureError ''request failed'')" ?w]
  note outcome = all [THEN conjunct2, THEN conjunct2, THEN conjunct2, THEN conjunct2,
      THEN conjunct2, THEN conjunct2, rule_format, of ?pre PublicIPAddresses_get False "[]"]
  from summary vm size pip ip
  have "\<exists>d. result (get_vm_info ?az ?rg ?name (web01_config, ?w)) = Inr d
      \<and> map_of d ''public_ip'' = Some (PStr ''No asignada'')"
    by simp
  moreover from outcome run
  have "\<exists>vm. result (create_complete_vm ?az (web01_config, ?w)) = Inr (Some vm)"
    by simp
  ultimately show ?thesis using run by simp
qed

text \<open>
  Claim C6 as stated fails: when the lookup of the public IP fails the summary of the example
  has \<^verbatim>\<open>No asignada\<close> in \<^verbatim>\<open>public_ip\<close>, and \<^verbatim>\<open>Pendiente\<close> when the address is not
  allocated yet; neither is \<^verbatim>\<open>unassigned\<close>.
\<close>

theorem placeholder_counterexample:
  "(\<exists>d. result (get_vm_info (sim_azure [PublicIPAddresses_get]) (PStr ''rg-web'') (PStr ''web01'')
                 (web01_config, ([], ''t''))) = Inr d
        \<and> map_of d ''public_ip'' = Some (PStr ''No asignada'')
        \<and> map_of d ''public_ip'' \<noteq> Some (PStr ''unassigned''))
   \<and> (\<exists>d. result (get_vm_info (sim_azure []) (PStr ''rg-web'') (PStr ''web01'')
                   (web01_config, ([], ''t''))) = Inr d
        \<and> map_of d ''public_ip'' = Some (PStr ''Pendiente'')
        \<and> map_of d ''public_ip'' \<noteq> Some (PStr ''unassigned''))"
  by (simp add: web01_summary)

section \<open>The resource group\<close>

lemma create_resource_group_run:
  "create_resource_group az name loc (cfg, w) =
     (case request az ResourceGroups_get [name] w of
        (Inr h, w1) \<Rightarrow> (Inr h, [Remote ResourceGroups_get [name] (Inr h)], (cfg, w1))
      | (Inl e, w1) \<Rightarrow>
          (case bind (add_tags az [(''location'', loc)])
                  (\<lambda>p. call az ResourceGroups_create_or_update [name, PDict p]) (cfg, w1) of
             (r, evs, s) \<Rightarrow> (r, Remote ResourceGroups_get [name] (Inl e) # evs, s)))"
  by (auto simp: create_resource_group_def try_except_def call_def split: prod.splits sum.splits)

lemma requests_append: "requests (A @ B) = requests A @ requests B"
  by (induction A rule: requests.induct) simp_all

lemma rg_creations_step:
  assumes "request az ResourceGroups_get [name] w = (r, w1)"
  shows "rg_creations (events (create_resource_group az name loc (cfg, w))) =
           (if isl r \<and> tags_usable cfg then 1 else 0)"
  using assms
  by (cases r)
     (auto simp: create_resource_group_run tagged_call_run rg_creations_def events_def
        tags_usable_def split: prod.splits pyval.splits)

text \<open>
  Claim C4, as the code has it. \<^verbatim>\<open>create_resource_group\<close> first requests the group; if
  the request returns, it returns that handle and makes no other request; it requests the
  creation exactly when the lookup raised (any exception counts as absence) and the tags
  could be computed. So two invocations with the same name request at most one creation
  whenever the lookup of the second invocation finds the group.
\<close>

theorem resource_group_looked_up_first:
  assumes "request az ResourceGroups_get [name] w = (r, w1)"
  shows "let \<rho>1 = create_resource_group az name loc (cfg, w);
             \<rho>2 = create_resource_group az name loc (final_config \<rho>1, final_world \<rho>1)
         in take 1 (events \<rho>1) = [Remote ResourceGroups_get [name] r]
          \<and> (\<forall>h. r = Inr h \<longrightarrow>
                 result \<rho>1 = Inr h \<and> events \<rho>1 = [Remote ResourceGroups_get [name] r])
          \<and> rg_creations (events \<rho>1) = (if isl r \<and> tags_usable cfg then 1 else 0)
          \<and> (\<forall>h w2. request az ResourceGroups_get [name] (final_world \<rho>1) = (Inr h, w2) \<longrightarrow>
                 rg_creations (events \<rho>1 @ events \<rho>2) \<le> 1)"
proof -
  define \<rho>1 where "\<rho>1 = create_resource_group az name loc (cfg, w)"
  define \<rho>2 where "\<rho>2 = create_resource_group az name loc (final_config \<rho>1, final_world \<rho>1)"
  have a: "take 1 (events \<rho>1) = [Remote ResourceGroups_get [name] r]"
    using assms unfolding \<rho>1_def
    by (cases r) (auto simp: create_resource_group_run events_def split: prod.splits)
  have b: "result \<rho>1 = Inr h \<and> events \<rho>1 = [Remote ResourceGroups_get [name] r]" if "r = Inr h" for h
    using assms that unfolding \<rho>1_def
    by (simp add: create_resource_group_run events_def result_def)
  have c: "rg_creations (events \<rho>1) = (if isl r \<and> tags_usable cfg then 1 else 0)"
    unfolding \<rho>1_def by (rule rg_creations_step [OF assms])
  have d: "rg_creations (events \<rho>1 @ events \<rho>2) \<le> 1"
    if "request az ResourceGroups_get [name] (final_world \<rho>1) = (Inr h, w2)" for h w2
  proof -
    from rg_creations_step [OF that, of loc "final_config \<rho>1"]
    have "rg_creations (events \<rho>2) = 0" by (simp add: \<rho>2_def)
    moreover have "rg_creations (events \<rho>1 @ events \<rho>2)
        = rg_creations (events \<rho>1) + rg_creations (events \<rho>2)"
      by (simp add: rg_creations_def requests_append)
    ultimately show ?thesis using c by simp
  qed
  from a b c d show ?thesis unfolding Let_def \<rho>1_def [symmetric] \<rho>2_def [symmetric] by blast
qed

theorem resource_group_looked_up_first_witness:
  "request (sim_azure []) ResourceGroups_get [PStr ''rg-web''] ([], ''t'')
     = (Inl (AzureError ''ResourceGroupNotFound''), ([], ''t''))
   \<and> (let \<rho>1 = create_resource_group (sim_azure []) (PStr ''rg-web'') (PStr ''East US'')
                  (web01_config, ([], ''t''));
           \<rho>2 = create_resource_group (sim_azure []) (PStr ''rg-web'') (PStr ''East US'')
                  (final_config \<rho>1, final_world \<rho>1)
       in rg_creations (events \<rho>1) = 1
        \<and> request (sim_azure []) ResourceGroups_get [PStr ''rg-web''] (final_world \<rho>1)
            = (Inr (sim_resource [PStr ''rg-web'']), final_world \<rho>1)
        \<and> rg_creations (events \<rho>1 @ events \<rho>2) \<le> 1)"
proof -
  let ?az = "sim_azure [] :: (pyval list \<times> string) azure"
  let ?w = "([], ''t'') :: pyval list \<times> string"
  let ?\<rho>1 = "create_resource_group ?az (PStr ''rg-web'') (PStr ''East US'') (web01_config, ?w)"
  let ?\<rho>2 = "create_resource_group ?az (PStr ''rg-web'') (PStr ''East US'')
               (final_config ?\<rho>1, final_world ?\<rho>1)"
  have get1: "request ?az ResourceGroups_get [PStr ''rg-web''] ?w
      = (Inl (AzureError ''ResourceGroupNotFound''), ?w)"
    by (simp add: sim_azure_def sim_request_def resource_name_def)
  have usable: "tags_usable web01_config"
    by (simp add: tags_usable_def config_get_def dict_get_def web01_config_def default_config_def)
  have world: "final_world ?\<rho>1 = ([PStr ''rg-web''], ''t+'')"
    by (simp add: create_resource_group_run tagged_call_run final_world_def sim_azure_def
        sim_request_def resource_name_def config_get_def dict_get_def web01_config_def
        default_config_def)
  have get2: "request ?az ResourceGroups_get [PStr ''rg-web''] (final_world ?\<rho>1)
      = (Inr (sim_resource [PStr ''rg-web'']), final_world ?\<rho>1)"
    unfolding world by (simp add: sim_azure_def sim_request_def resource_name_def)
  from resource_group_looked_up_first [OF get1, of "PStr ''East US''" web01_config]
  have "rg_creations (events ?\<rho>1) = (if isl (Inl (AzureError ''ResourceGroupNotFound'') :: exn + resource) \<and> tags_usable web01_config then 1 else 0)"
    and "request ?az ResourceGroups_get [PStr ''rg-web''] (final_world ?\<rho>1)
           = (Inr (sim_resource [PStr ''rg-web'']), final_world ?\<rho>1)
         \<longrightarrow> rg_creations (events ?\<rho>1 @ events ?\<rho>2) \<le> 1"
    unfolding Let_def by blast+
  with get1 get2 usable show ?thesis unfolding Let_def by simp
qed

text \<open>
  Claim C4 as stated fails. When the creation of the group fails, two invocations with the
  same name request the creation twice; and when the lookup raises although the group
  exists, the creation is requested all the same.
\<close>

theorem resource_group_counterexample:
  "(let \<rho>1 = create_resource_group (sim_azure [ResourceGroups_create_or_update])
                 (PStr ''rg-web'') (PStr ''East US'') (web01_config, ([], ''t''));
        \<rho>2 = create_resource_group (sim_azure [ResourceGroups_create_or_update])
                 (PStr ''rg-web'') (PStr ''East US'') (final_config \<rho>1, final_world \<rho>1)
    in rg_creations (events \<rho>1 @ events \<rho>2) = 2)
   \<and> PStr ''rg-web'' \<in> set (fst ([PStr ''rg-web''], ''t''))
   \<and> rg_creations (events (create_resource_group (sim_azure [ResourceGroups_get])
                              (PStr ''rg-web'') (PStr ''East US'')
                              (web01_config, ([PStr ''rg-web''], ''t'')))) = 1"
  by (simp add: Let_def rg_creations_def requests_append create_resource_group_run
      tagged_call_run events_def final_config_def final_world_def sim_azure_def sim_request_def
      resource_name_def config_get_def dict_get_def web01_config_def default_config_def)

end
